theory Spec2Isabelle
  imports Main "HOL-Library.Sublist"
begin

section \<open>Data model\<close>

text \<open>
  The program (\<^verbatim>\<open>src/main.go\<close>) is a sequential script over three collaborators: the
  action inputs and the local file system, the authentication libraries, and the Drive
  service. Each collaborator is a parameter of the model; every call the program makes
  to the Drive service is appended to a trace, so that statements about "which call is
  issued, with which arguments" are statements about that trace.
\<close>

text \<open>\<^verbatim>\<open>drive.File\<close>, restricted to the fields the program reads or writes. A field the
  Go code leaves unset has Go's zero value: the empty string, the empty slice.\<close>

record drive_file =
  FileId :: string
  Name :: string
  MimeType :: string
  Parents :: "string list"

text \<open>The three remote calls of the program, with their arguments:
  \<^item> \<^verbatim>\<open>svc.Files.List().Q(query).Do()\<close>;
  \<^item> \<^verbatim>\<open>svc.Files.Create(f)[.Media(file)].SupportsAllDrives(true).Do()\<close>, the media being
    absent for a folder;
  \<^item> \<^verbatim>\<open>svc.Files.Update(id, f).AddParents(folderId).Media(file).SupportsAllDrives(true).Do()\<close>.\<close>

datatype api_call =
    FilesList string
  | FilesCreate drive_file "string option"
  | FilesUpdate string drive_file string string

text \<open>The Drive service: a state of type \<open>'r\<close> and one response function per call. An
  error is the text of the Go \<^verbatim>\<open>error\<close>.\<close>

record 'r service =
  Files_List_Do :: "'r \<Rightarrow> string \<Rightarrow> (string + drive_file list) \<times> 'r"
  Files_Create_Do :: "'r \<Rightarrow> drive_file \<Rightarrow> string option \<Rightarrow> (string + drive_file) \<times> 'r"
  Files_Update_Do :: "'r \<Rightarrow> string \<Rightarrow> drive_file \<Rightarrow> string \<Rightarrow> string \<Rightarrow> (string + drive_file) \<times> 'r"

text \<open>What the process writes: \<^verbatim>\<open>fmt.Printf\<close>, \<^verbatim>\<open>githubactions.Warningf\<close> and
  \<^verbatim>\<open>githubactions.Infof\<close>, each with the formatted text.\<close>

datatype log_line = Printf string | Warningf string | Infof string

record 'r world =
  remote :: 'r
  calls :: "api_call list"
  out :: "log_line list"

text \<open>How the process ends: \<^verbatim>\<open>main\<close> returns, or \<^verbatim>\<open>githubactions.Fatalf\<close> is called,
  which logs its message and exits with status 1. \<open>Fatal\<close> carries the string the
  program passes to \<^verbatim>\<open>Fatalf\<close>.\<close>

datatype outcome = Returned | Fatal string

text \<open>The local collaborators: \<^verbatim>\<open>githubactions.GetInput\<close> (the empty string for an
  unset input), \<^verbatim>\<open>filepath.Glob\<close>, \<^verbatim>\<open>os.Lstat\<close> (the answer of \<^verbatim>\<open>IsDir\<close>),
  \<^verbatim>\<open>os.Open\<close> (the opened file, as the media of the upload),
  \<^verbatim>\<open>base64.StdEncoding.DecodeString\<close>, \<^verbatim>\<open>google.JWTConfigFromJSON\<close> with the
  scope, and \<^verbatim>\<open>drive.NewService\<close>. None of them calls the Drive service.\<close>

record platform =
  GetInput :: "string \<Rightarrow> string"
  Glob :: "string \<Rightarrow> string + string list"
  Lstat :: "string \<Rightarrow> string + bool"
  Open :: "string \<Rightarrow> string + string"
  DecodeString :: "string \<Rightarrow> string + string"
  JWTConfigFromJSON :: "string \<Rightarrow> string \<Rightarrow> string + string"
  NewService :: "string \<Rightarrow> string + unit"

section \<open>Constants of the program\<close>

definition scope :: string where
  "scope = ''https://www.googleapis.com/auth/drive.file''"

definition filenameInput :: string where
  "filenameInput = ''filename''"

definition nameInput :: string where
  "nameInput = ''name''"

definition folderIdInput :: string where
  "folderIdInput = ''folderId''"

definition credentialsInput :: string where
  "credentialsInput = ''credentials''"

definition mimeTypeInput :: string where
  "mimeTypeInput = ''mimeType''"

definition useCompleteSourceName :: string where
  "useCompleteSourceName = ''useCompleteSourceFilenameAsName''"

definition mirrorDirectoryStructure :: string where
  "mirrorDirectoryStructure = ''mirrorDirectoryStructure''"

definition namePrefixInput :: string where
  "namePrefixInput = ''namePrefix''"

section \<open>Go library functions used by the program\<close>

text \<open>\<^verbatim>\<open>strconv.ParseBool\<close>: the value and the error. The error is a syntax error that
  carries the rejected string; with it the value is \<open>False\<close>.\<close>

datatype parse_error = ErrSyntax string

definition ParseBool :: "string \<Rightarrow> bool \<times> parse_error option" where
  "ParseBool str =
     (if str \<in> set [''1'', ''t'', ''T'', ''true'', ''TRUE'', ''True''] then (True, None)
      else if str \<in> set [''0'', ''f'', ''F'', ''false'', ''FALSE'', ''False''] then (False, None)
      else (False, Some (ErrSyntax str)))"

text \<open>\<^verbatim>\<open>strings.Replace(s, " ", "\\ ", -1)\<close>: every space becomes a backslash and a space.\<close>

definition escapeSpaces :: "string \<Rightarrow> string" where
  "escapeSpaces s = concat (map (\<lambda>c. if c = CHR '' '' then [CHR 0x5C, CHR '' ''] else [c]) s)"

text \<open>\<^verbatim>\<open>os.IsPathSeparator\<close> on Unix.\<close>

definition IsPathSeparator :: "char \<Rightarrow> bool" where
  "IsPathSeparator c = (c = CHR ''/'')"

text \<open>\<^verbatim>\<open>filepath.Base\<close> on Unix (no volume name): the last element of the path, trailing
  separators removed first; \<^verbatim>\<open>"."\<close> for the empty path and \<^verbatim>\<open>"/"\<close> for a path of
  separators only.\<close>

definition stripTrailing :: "string \<Rightarrow> string" where
  "stripTrailing path = rev (dropWhile IsPathSeparator (rev path))"

definition Base :: "string \<Rightarrow> string" where
  "Base path =
     (if path = [] then ''.''
      else let p = stripTrailing path;
               e = rev (takeWhile (\<lambda>c. \<not> IsPathSeparator c) (rev p))
           in if e = [] then ''/'' else e)"

text \<open>\<^verbatim>\<open>filepath.Clean\<close> on Unix. \<open>backtrack\<close> is the handling of a \<^verbatim>\<open>..\<close> element when
  the buffer can shrink: \<^verbatim>\<open>out.w--\<close>, then further while \<^verbatim>\<open>out.w > dotdot\<close> and the byte
  at \<^verbatim>\<open>out.w\<close> is no separator.\<close>

function backtrack :: "nat \<Rightarrow> string \<Rightarrow> nat \<Rightarrow> nat" where
  "backtrack dotdot buf w =
     (if w > dotdot \<and> \<not> IsPathSeparator (buf ! w) then backtrack dotdot buf (w - 1) else w)"
  by pat_completeness auto
termination
  by (relation "measure (\<lambda>(dotdot, buf, w). w)") auto

declare backtrack.simps [simp del]

text \<open>The main loop of \<^verbatim>\<open>Clean\<close>, reading the rest of the path (\<^verbatim>\<open>path[r:]\<close>) and
  writing the buffer \<open>buf\<close> (\<^verbatim>\<open>out.w\<close> is its length).\<close>

function cleanLoop :: "bool \<Rightarrow> string \<Rightarrow> string \<Rightarrow> nat \<Rightarrow> string" where
  "cleanLoop rooted [] buf dotdot = buf"
| "cleanLoop rooted (c # cs) buf dotdot =
     (if IsPathSeparator c then cleanLoop rooted cs buf dotdot
      else if c = CHR ''.'' \<and> (cs = [] \<or> IsPathSeparator (hd cs)) then
        cleanLoop rooted cs buf dotdot
      else if c = CHR ''.'' \<and> hd cs = CHR ''.'' \<and> (tl cs = [] \<or> IsPathSeparator (hd (tl cs))) then
        (if length buf > dotdot then
           cleanLoop rooted (tl cs) (take (backtrack dotdot buf (length buf - 1)) buf) dotdot
         else if \<not> rooted then
           (let buf' = (if length buf > 0 then buf @ ''/'' else buf) @ ''..''
            in cleanLoop rooted (tl cs) buf' (length buf'))
         else cleanLoop rooted (tl cs) buf dotdot)
      else
        (let buf' = (if rooted \<and> length buf \<noteq> 1 \<or> \<not> rooted \<and> length buf \<noteq> 0
                     then buf @ ''/'' else buf)
         in cleanLoop rooted (dropWhile (\<lambda>x. \<not> IsPathSeparator x) cs)
              (buf' @ c # takeWhile (\<lambda>x. \<not> IsPathSeparator x) cs) dotdot))"
  by pat_completeness auto
termination
  by (relation "measure (\<lambda>(rooted, path, buf, dotdot). length path)")
     (simp_all add: less_Suc_eq_le length_dropWhile_le)

definition Clean :: "string \<Rightarrow> string" where
  "Clean path =
     (if path = [] then ''.''
      else let rooted = IsPathSeparator (hd path);
               buf = (if rooted then cleanLoop rooted (tl path) ''/'' 1
                      else cleanLoop rooted path [] 0)
           in if buf = [] then ''.'' else buf)"

text \<open>\<^verbatim>\<open>filepath.Dir\<close> on Unix: \<^verbatim>\<open>Clean\<close> of the path up to and including its last
  separator.\<close>

definition Dir :: "string \<Rightarrow> string" where
  "Dir path = Clean (rev (dropWhile (\<lambda>c. \<not> IsPathSeparator c) (rev path)))"

section \<open>The program\<close>

text \<open>The query of \<^verbatim>\<open>findFileByName\<close>:
  \<^verbatim>\<open>fmt.Sprintf("name = '%s' and '%s' in parents and trashed = false", name, parentFolderID)\<close>.
  The quote character is \<open>CHR 0x27\<close>.\<close>

definition findQuery :: "string \<Rightarrow> string \<Rightarrow> string" where
  "findQuery name parentFolderID =
     ''name = '' @ [CHR 0x27] @ name @ [CHR 0x27] @ '' and '' @ [CHR 0x27] @ parentFolderID
       @ [CHR 0x27] @ '' in parents and trashed = false''"

text \<open>\<^verbatim>\<open>findFileByName\<close>: the result \<^verbatim>\<open>(nil, nil)\<close> is \<open>Inr None\<close>.\<close>

definition findFileByName ::
  "'r service \<Rightarrow> string \<Rightarrow> string \<Rightarrow> 'r world \<Rightarrow> (string + drive_file option) \<times> 'r world" where
  "findFileByName svc name parentFolderID w =
     (let query = findQuery name parentFolderID;
          (files, r) = Files_List_Do svc (remote w) query;
          w' = w\<lparr>remote := r, calls := calls w @ [FilesList query]\<rparr>
      in case files of
           Inl err \<Rightarrow> (Inl (''error searching for file by name: '' @ err), w')
         | Inr fs \<Rightarrow> (if length fs > 0 then (Inr (Some (fs ! 0)), w') else (Inr None, w')))"

definition createDriveDirectory ::
  "'r service \<Rightarrow> string \<Rightarrow> string \<Rightarrow> 'r world \<Rightarrow> (string + string) \<times> 'r world" where
  "createDriveDirectory svc parentFolderID folderName w =
     (case findFileByName svc folderName parentFolderID w of
        (Inl err, w1) \<Rightarrow>
          (Inl (''failed to check existing folders in the parent folder: '' @ err), w1)
      | (Inr (Some folder), w1) \<Rightarrow> (Inr (FileId folder), w1)
      | (Inr None, w1) \<Rightarrow>
          (let d = \<lparr>FileId = [], Name = folderName,
                    MimeType = ''application/vnd.google-apps.folder'',
                    Parents = [parentFolderID]\<rparr>;
               (newFolder, r) = Files_Create_Do svc (remote w1) d None;
               w2 = w1\<lparr>remote := r, calls := calls w1 @ [FilesCreate d None]\<rparr>
           in case newFolder of
                Inl err \<Rightarrow> (Inl (''failed to create directory on Google Drive: '' @ err), w2)
              | Inr nf \<Rightarrow> (Inr (FileId nf), w2)))"

definition uploadToDrive ::
  "platform \<Rightarrow> 'r service \<Rightarrow> string \<Rightarrow> string \<Rightarrow> drive_file option \<Rightarrow> string \<Rightarrow> string
     \<Rightarrow> 'r world \<Rightarrow> (string + string) \<times> 'r world" where
  "uploadToDrive os svc filename folderId driveFile name mimeType w =
     (case Lstat os filename of
        Inl err \<Rightarrow>
          (Inl (''lstat of file with filename: '' @ filename @ '' failed with error: '' @ err), w)
      | Inr isDir \<Rightarrow>
          if isDir then
            (Inr [], w\<lparr>out := out w @ [Printf (filename @ '' is a directory. skipping upload.'')]\<rparr>)
          else
            (case Open os filename of
               Inl err \<Rightarrow>
                 (Inl (''opening file with filename: '' @ filename @ '' failed with error: '' @ err), w)
             | Inr file \<Rightarrow>
                 (let (updatedFile, w') =
                        (case driveFile of
                           Some df \<Rightarrow>
                             (let f = \<lparr>FileId = [], Name = name, MimeType = mimeType, Parents = []\<rparr>;
                                  (res, r) = Files_Update_Do svc (remote w) (FileId df) f folderId file
                              in (res, w\<lparr>remote := r,
                                         calls := calls w @ [FilesUpdate (FileId df) f folderId file]\<rparr>))
                         | None \<Rightarrow>
                             (let f = \<lparr>FileId = [], Name = name, MimeType = mimeType,
                                       Parents = [folderId]\<rparr>;
                                  (res, r) = Files_Create_Do svc (remote w) f (Some file)
                              in (res, w\<lparr>remote := r,
                                         calls := calls w @ [FilesCreate f (Some file)]\<rparr>)))
                  in case updatedFile of
                       Inl err \<Rightarrow> (Inl (''creating/updating file failed with error: '' @ err), w')
                     | Inr uf \<Rightarrow>
                         (Inr (''https://drive.google.com/file/d/'' @ FileId uf @ ''/view''), w'))))"

text \<open>The name of the uploaded file (lines 166 to 179 of \<^verbatim>\<open>main\<close>).\<close>

definition uploadedFileName :: "bool \<Rightarrow> string \<Rightarrow> string \<Rightarrow> string \<Rightarrow> string" where
  "uploadedFileName useCompleteSourceNameFlag namePrefix name file =
     (if useCompleteSourceNameFlag then file
      else let baseFileName = Base file
           in if namePrefix \<noteq> [] then namePrefix @ baseFileName
              else if name \<noteq> [] then name
              else baseFileName)"

text \<open>The body of the loop over the matched files (lines 151 to 195 of \<^verbatim>\<open>main\<close>), for
  one file. \<open>Some msg\<close> is a call of \<^verbatim>\<open>Fatalf\<close>, which ends the process; \<open>None\<close> goes on
  to the next file. The id that \<^verbatim>\<open>createDriveDirectory\<close> returns is assigned to the blank
  identifier.\<close>

definition main_loop_body ::
  "platform \<Rightarrow> 'r service \<Rightarrow> string \<Rightarrow> string \<Rightarrow> string \<Rightarrow> bool \<Rightarrow> bool \<Rightarrow> string
     \<Rightarrow> string \<Rightarrow> 'r world \<Rightarrow> string option \<times> 'r world" where
  "main_loop_body os svc name folderId mimeType useCompleteSourceNameFlag
       mirrorDirectoryStructureFlag namePrefix file w =
     (let escapedName = escapeSpaces file;
          (err1, w1) =
            (if mirrorDirectoryStructureFlag then
               (let fileDir = Dir escapedName
                in if fileDir \<noteq> ''.'' then
                     (case createDriveDirectory svc folderId fileDir w of
                        (Inl err, w') \<Rightarrow> (Some err, w')
                      | (Inr _, w') \<Rightarrow> (None, w'))
                   else (None, w))
             else (None, w))
      in case err1 of
           Some err \<Rightarrow>
             (Some (''Failed to create directory structure on Google Drive: '' @ err), w1)
         | None \<Rightarrow>
             (let fileName = uploadedFileName useCompleteSourceNameFlag namePrefix name file
              in case findFileByName svc fileName folderId w1 of
                   (Inl err, w2) \<Rightarrow>
                     (Some (''Failed to check existing files in the folder: '' @ err), w2)
                 | (Inr driveFile, w2) \<Rightarrow>
                     (case uploadToDrive os svc file folderId driveFile fileName mimeType w2 of
                        (Inl err, w3) \<Rightarrow>
                          (Some (''Failed to upload file to Google Drive: '' @ err), w3)
                      | (Inr uploadedLink, w3) \<Rightarrow>
                          (None, w3\<lparr>out := out w3 @ [Infof (''Uploaded file: '' @ uploadedLink)]\<rparr>))))"

fun main_loop ::
  "platform \<Rightarrow> 'r service \<Rightarrow> string \<Rightarrow> string \<Rightarrow> string \<Rightarrow> bool \<Rightarrow> bool \<Rightarrow> string
     \<Rightarrow> string list \<Rightarrow> 'r world \<Rightarrow> outcome \<times> 'r world" where
  "main_loop os svc name folderId mimeType ucs mds namePrefix [] w = (Returned, w)"
| "main_loop os svc name folderId mimeType ucs mds namePrefix (file # files) w =
     (case main_loop_body os svc name folderId mimeType ucs mds namePrefix file w of
        (Some msg, w') \<Rightarrow> (Fatal msg, w')
      | (None, w') \<Rightarrow> main_loop os svc name folderId mimeType ucs mds namePrefix files w')"

text \<open>\<^verbatim>\<open>missingInput\<close>: the message given to \<^verbatim>\<open>Fatalf\<close>.\<close>

definition missingInput :: "string \<Rightarrow> string" where
  "missingInput inputName = ''Input '' @ inputName @ '' is missing or empty''"

text \<open>\<^verbatim>\<open>fmt.Printf("Files: %v\n", files)\<close>: a slice of strings is printed between brackets,
  its elements separated by spaces.\<close>

fun joinSpace :: "string list \<Rightarrow> string" where
  "joinSpace [] = []"
| "joinSpace [x] = x"
| "joinSpace (x # y # ys) = x @ '' '' @ joinSpace (y # ys)"

definition printFiles :: "string list \<Rightarrow> log_line" where
  "printFiles files = Printf (''Files: ['' @ joinSpace files @ '']'' @ [CHR 0x0A])"

text \<open>\<^verbatim>\<open>main\<close>, started on the Drive in state \<open>r\<close>. When \<^verbatim>\<open>Glob\<close> fails, the slice it
  returns is \<^verbatim>\<open>nil\<close>. The overwrite input is read under the literal name \<^verbatim>\<open>overwrite\<close>
  (the constant \<^verbatim>\<open>overwrite\<close> of the program is hidden by the local variable of that name);
  the parsed overwrite flag is assigned and never read.\<close>

definition main :: "platform \<Rightarrow> 'r service \<Rightarrow> 'r \<Rightarrow> outcome \<times> 'r world" where
  "main os svc r =
     (let w0 = \<lparr>remote = r, calls = [], out = []\<rparr>;
          filename = GetInput os filenameInput
      in if filename = [] then (Fatal (missingInput filenameInput), w0)
         else
           (let globbed = Glob os filename;
                files = (case globbed of Inl _ \<Rightarrow> [] | Inr fs \<Rightarrow> fs);
                w1 = w0\<lparr>out := out w0 @ [printFiles files]\<rparr>
            in case globbed of
                 Inl err \<Rightarrow> (Fatal (''Invalid filename pattern: '' @ err), w1)
               | Inr _ \<Rightarrow>
                   if length files = 0 then (Fatal (''No file found! pattern: '' @ filename), w1)
                   else
                     (let overwrite = GetInput os ''overwrite'';
                          w2 = (if overwrite = []
                                then w1\<lparr>out := out w1 @ [Warningf ''Overwrite is disabled.'']\<rparr>
                                else w1);
                          overwriteFlag = (if overwrite = [] then False
                                           else fst (ParseBool overwrite));
                          name = GetInput os nameInput;
                          folderId = GetInput os folderIdInput
                      in if folderId = [] then (Fatal (missingInput folderIdInput), w2)
                         else
                           (let mimeType = GetInput os mimeTypeInput;
                                useCompleteSourceNameFlag =
                                  fst (ParseBool (GetInput os useCompleteSourceName));
                                mirrorDirectoryStructureFlag =
                                  fst (ParseBool (GetInput os mirrorDirectoryStructure));
                                namePrefix = GetInput os namePrefixInput;
                                credentials = GetInput os credentialsInput
                            in if credentials = [] then (Fatal (missingInput credentialsInput), w2)
                               else
                                 (case DecodeString os credentials of
                                    Inl err \<Rightarrow> (Fatal (''Failed to decode credentials: '' @ err), w2)
                                  | Inr decodedCreds \<Rightarrow>
                                      (case JWTConfigFromJSON os decodedCreds scope of
                                         Inl err \<Rightarrow>
                                           (Fatal (''Failed to create JWT config: '' @ err), w2)
                                       | Inr jwtConfig \<Rightarrow>
                                           (case NewService os jwtConfig of
                                              Inl err \<Rightarrow>
                                                (Fatal (''Failed to create Drive service client: ''
                                                          @ err), w2)
                                            | Inr _ \<Rightarrow>
                                                main_loop os svc name folderId mimeType
                                                  useCompleteSourceNameFlag
                                                  mirrorDirectoryStructureFlag namePrefix
                                                  files w2)))))))"

section \<open>Auxiliary notions\<close>

text \<open>The folder creation that \<^verbatim>\<open>createDriveDirectory\<close> issues after its lookup, started in
  world \<open>w\<close>: one create when the lookup succeeds with no file, none otherwise.\<close>

definition folderCreates :: "'r service \<Rightarrow> string \<Rightarrow> string \<Rightarrow> 'r world \<Rightarrow> api_call list" where
  "folderCreates svc parentFolderID folderName w =
     (case fst (Files_List_Do svc (remote w) (findQuery folderName parentFolderID)) of
        Inl err \<Rightarrow> []
      | Inr fs \<Rightarrow>
          if fs = [] then
            [FilesCreate \<lparr>FileId = [], Name = folderName,
                          MimeType = ''application/vnd.google-apps.folder'',
                          Parents = [parentFolderID]\<rparr> None]
          else [])"

text \<open>The calls that carry a local file: a create with media, or an update.\<close>

fun isUpload :: "api_call \<Rightarrow> bool" where
  "isUpload (FilesList q) = False"
| "isUpload (FilesCreate f media) = (media \<noteq> None)"
| "isUpload (FilesUpdate fileId f addParents media) = True"

text \<open>The loop body after the mirroring step (lines 166 to 194 of \<^verbatim>\<open>main\<close>): the name, the
  existence check, the upload and the report. The loop body is the mirroring step followed
  by this function (lemma \<open>main_loop_body_unfold\<close> below).\<close>

definition checkAndUpload ::
  "platform \<Rightarrow> 'r service \<Rightarrow> string \<Rightarrow> string \<Rightarrow> string \<Rightarrow> bool \<Rightarrow> string \<Rightarrow> string
     \<Rightarrow> 'r world \<Rightarrow> string option \<times> 'r world" where
  "checkAndUpload os svc name folderId mimeType ucs namePrefix file w1 =
     (let fileName = uploadedFileName ucs namePrefix name file
      in case findFileByName svc fileName folderId w1 of
           (Inl err, w2) \<Rightarrow>
             (Some (''Failed to check existing files in the folder: '' @ err), w2)
         | (Inr driveFile, w2) \<Rightarrow>
             (case uploadToDrive os svc file folderId driveFile fileName mimeType w2 of
                (Inl err, w3) \<Rightarrow>
                  (Some (''Failed to upload file to Google Drive: '' @ err), w3)
              | (Inr uploadedLink, w3) \<Rightarrow>
                  (None, w3\<lparr>out := out w3 @ [Infof (''Uploaded file: '' @ uploadedLink)]\<rparr>)))"

text \<open>Two worlds with the same Drive state and the same calls; they may differ in what
  was written.\<close>

definition sameDrive :: "'r world \<Rightarrow> 'r world \<Rightarrow> bool" where
  "sameDrive w w' \<longleftrightarrow> remote w = remote w' \<and> calls w = calls w'"

text \<open>The calls that create a folder: a create without media.\<close>

fun isFolderCreate :: "api_call \<Rightarrow> bool" where
  "isFolderCreate (FilesList q) = False"
| "isFolderCreate (FilesCreate f media) = (media = None)"
| "isFolderCreate (FilesUpdate fileId f addParents media) = False"

text \<open>One action input replaced, the rest of the platform unchanged.\<close>

definition withInput :: "platform \<Rightarrow> string \<Rightarrow> string \<Rightarrow> platform" where
  "withInput os k v = os\<lparr>GetInput := (GetInput os)(k := v)\<rparr>"

section \<open>Concrete collaborators, to run the program\<close>

text \<open>A small Drive: its state is the list of its files, without their content. A list
  answers the files whose name and one of whose parents give the query; a create stores
  the file under an id made from its name; an update answers the file under its old id
  and leaves the list as it is.\<close>

definition exampleDrive :: "drive_file list service" where
  "exampleDrive =
     \<lparr>Files_List_Do =
        (\<lambda>r q. (Inr (filter (\<lambda>f. \<exists>p \<in> set (Parents f). q = findQuery (Name f) p) r), r)),
      Files_Create_Do =
        (\<lambda>r f media. (let nf = f\<lparr>FileId := ''id-'' @ Name f\<rparr> in (Inr nf, r @ [nf]))),
      Files_Update_Do =
        (\<lambda>r fileId f addParents media. (Inr (f\<lparr>FileId := fileId\<rparr>), r))\<rparr>"

text \<open>Action inputs given as a table; an input that is not in the table is empty.\<close>

definition inputsOf :: "(string \<times> string) list \<Rightarrow> string \<Rightarrow> string" where
  "inputsOf kv k = (case map_of kv k of None \<Rightarrow> [] | Some v \<Rightarrow> v)"

text \<open>A platform with the given inputs, on which the pattern expands to \<open>files\<close>, the
  paths in \<open>dirs\<close> are directories, every file opens, and authentication succeeds.\<close>

definition examplePlatform ::
  "(string \<times> string) list \<Rightarrow> string list \<Rightarrow> string list \<Rightarrow> platform" where
  "examplePlatform kv files dirs =
     \<lparr>GetInput = inputsOf kv, Glob = (\<lambda>p. Inr files), Lstat = (\<lambda>f. Inr (f \<in> set dirs)),
      Open = (\<lambda>f. Inr (''contents of '' @ f)), DecodeString = (\<lambda>c. Inr c),
      JWTConfigFromJSON = (\<lambda>c s. Inr c), NewService = (\<lambda>j. Inr ())\<rparr>"

text \<open>Inputs with the three required values, a world in which nothing has happened yet, a
  folder and a file that are on the Drive already.\<close>

definition exampleInputs :: "(string \<times> string) list" where
  "exampleInputs = [(''filename'', ''*''), (''folderId'', ''root''), (''credentials'', ''Y3JlZA=='')]"

definition startWorld :: "drive_file list \<Rightarrow> drive_file list world" where
  "startWorld r = \<lparr>remote = r, calls = [], out = []\<rparr>"

definition existingFolder :: drive_file where
  "existingFolder = \<lparr>FileId = ''F1'', Name = ''a/b'',
                      MimeType = ''application/vnd.google-apps.folder'', Parents = [''root'']\<rparr>"

definition existingFile :: drive_file where
  "existingFile = \<lparr>FileId = ''X1'', Name = ''f.txt'', MimeType = ''text/plain'',
                    Parents = [''root'']\<rparr>"

text \<open>The world after the folder \<^verbatim>\<open>a\<close> has been looked up and created on the empty Drive.\<close>

definition afterMirror :: "drive_file list world" where
  "afterMirror =
     \<lparr>remote = [\<lparr>FileId = ''id-a'', Name = ''a'',
                   MimeType = ''application/vnd.google-apps.folder'', Parents = [''root'']\<rparr>],
      calls = [FilesList (findQuery ''a'' ''root''),
               FilesCreate \<lparr>FileId = [], Name = ''a'',
                             MimeType = ''application/vnd.google-apps.folder'',
                             Parents = [''root'']\<rparr> None],
      out = []\<rparr>"

section \<open>The trace of each function\<close>

lemma findFileByName_calls:
  "calls (snd (findFileByName svc n p w)) = calls w @ [FilesList (findQuery n p)]"
  by (simp add: findFileByName_def Let_def split: prod.splits sum.splits)

lemma findFileByName_out:
  "out (snd (findFileByName svc n p w)) = out w"
  by (simp add: findFileByName_def Let_def split: prod.splits sum.splits)

lemma createDriveDirectory_calls:
  "calls (snd (createDriveDirectory svc p n w)) =
     calls w @ FilesList (findQuery n p) # folderCreates svc p n w"
  by (simp add: createDriveDirectory_def findFileByName_def folderCreates_def Let_def
           split: prod.splits sum.splits option.splits)

lemma uploadToDrive_dir:
  "Lstat os file = Inr True \<Longrightarrow>
   uploadToDrive os svc file folderId driveFile name mimeType w =
     (Inr [], w\<lparr>out := out w @ [Printf (file @ '' is a directory. skipping upload.'')]\<rparr>)"
  by (simp add: uploadToDrive_def)

lemma uploadToDrive_update:
  "Lstat os file = Inr False \<Longrightarrow> Open os file = Inr h \<Longrightarrow>
   calls (snd (uploadToDrive os svc file folderId (Some df) name mimeType w)) =
     calls w @ [FilesUpdate (FileId df)
                  \<lparr>FileId = [], Name = name, MimeType = mimeType, Parents = []\<rparr> folderId h]"
  by (simp add: uploadToDrive_def Let_def split: prod.splits sum.splits)

lemma uploadToDrive_create:
  "Lstat os file = Inr False \<Longrightarrow> Open os file = Inr h \<Longrightarrow>
   calls (snd (uploadToDrive os svc file folderId None name mimeType w)) =
     calls w @ [FilesCreate
                  \<lparr>FileId = [], Name = name, MimeType = mimeType, Parents = [folderId]\<rparr> (Some h)]"
  by (simp add: uploadToDrive_def Let_def split: prod.splits sum.splits)

section \<open>Spaces in file names\<close>

lemma escapeSpaces_length:
  "length (escapeSpaces s) = length s + length (filter (\<lambda>c. c = CHR '' '') s)"
  by (induction s) (simp_all add: escapeSpaces_def)

lemma escapeSpaces_id_iff: "escapeSpaces s = s \<longleftrightarrow> CHR '' '' \<notin> set s"
proof
  assume "escapeSpaces s = s"
  then have "length (filter (\<lambda>c. c = CHR '' '') s) = 0"
    using escapeSpaces_length [of s] by simp
  then show "CHR '' '' \<notin> set s"
    by (auto simp add: filter_empty_conv)
next
  assume "CHR '' '' \<notin> set s"
  then show "escapeSpaces s = s"
    by (induction s) (auto simp add: escapeSpaces_def)
qed

section \<open>The existence check\<close>

text \<open>
  Claim C10. For every name \<open>n\<close> and parent folder id \<open>p\<close>, \<^verbatim>\<open>findFileByName\<close> sends to
  the list call exactly the text \<^verbatim>\<open>name = '\<close>\<open>n\<close>\<^verbatim>\<open>' and '\<close>\<open>p\<close>\<^verbatim>\<open>' in parents and trashed = false\<close>,
  with nothing quoted or escaped, also when \<open>n\<close> has a quote. So the query does not
  determine the name: the name \<^verbatim>\<open>a' and 'b\<close> in folder \<^verbatim>\<open>c\<close> and the name \<^verbatim>\<open>a\<close> in folder
  \<^verbatim>\<open>b' and 'c\<close> give the same query.
\<close>

theorem findFileByName_query_not_escaped:
  "calls (snd (findFileByName svc n p w)) =
     calls w @ [FilesList (''name = '' @ [CHR 0x27] @ n @ [CHR 0x27] @ '' and '' @ [CHR 0x27] @ p
                            @ [CHR 0x27] @ '' in parents and trashed = false'')]
   \<and> findQuery (''a'' @ [CHR 0x27] @ '' and '' @ [CHR 0x27] @ ''b'') ''c''
       = findQuery ''a'' (''b'' @ [CHR 0x27] @ '' and '' @ [CHR 0x27] @ ''c'')
   \<and> ''a'' @ [CHR 0x27] @ '' and '' @ [CHR 0x27] @ ''b'' \<noteq> ''a''"
  by (simp add: findFileByName_calls findQuery_def)

section \<open>What \<^verbatim>\<open>main\<close> reads from the platform\<close>

text \<open>The loop reads the platform through \<^verbatim>\<open>os.Lstat\<close> and \<^verbatim>\<open>os.Open\<close> only.\<close>

lemma uploadToDrive_platform:
  "Lstat os = Lstat os' \<Longrightarrow> Open os = Open os' \<Longrightarrow>
   uploadToDrive os svc file folderId driveFile name mimeType w =
   uploadToDrive os' svc file folderId driveFile name mimeType w"
  by (simp add: uploadToDrive_def cong: sum.case_cong if_cong)

lemma main_loop_body_platform:
  "Lstat os = Lstat os' \<Longrightarrow> Open os = Open os' \<Longrightarrow>
   main_loop_body os svc name folderId mimeType ucs mds namePrefix file w =
   main_loop_body os' svc name folderId mimeType ucs mds namePrefix file w"
  by (simp add: main_loop_body_def uploadToDrive_platform [of os os']
           cong: sum.case_cong option.case_cong prod.case_cong if_cong)

lemma main_loop_platform:
  "Lstat os = Lstat os' \<Longrightarrow> Open os = Open os' \<Longrightarrow>
   main_loop os svc name folderId mimeType ucs mds namePrefix files w =
   main_loop os' svc name folderId mimeType ucs mds namePrefix files w"
  by (induction files arbitrary: w)
     (simp_all add: main_loop_body_platform [of os os'] cong: option.case_cong prod.case_cong)

text \<open>\<^verbatim>\<open>main\<close> reads six inputs as they are, two as parsed booleans, and of the overwrite
  input only whether it is empty.\<close>

lemma main_cong:
  assumes "Glob os' = Glob os" and "Lstat os' = Lstat os" and "Open os' = Open os"
    and "DecodeString os' = DecodeString os" and "JWTConfigFromJSON os' = JWTConfigFromJSON os"
    and "NewService os' = NewService os"
    and "GetInput os' filenameInput = GetInput os filenameInput"
    and "GetInput os' nameInput = GetInput os nameInput"
    and "GetInput os' folderIdInput = GetInput os folderIdInput"
    and "GetInput os' mimeTypeInput = GetInput os mimeTypeInput"
    and "GetInput os' namePrefixInput = GetInput os namePrefixInput"
    and "GetInput os' credentialsInput = GetInput os credentialsInput"
    and "fst (ParseBool (GetInput os' useCompleteSourceName)) =
         fst (ParseBool (GetInput os useCompleteSourceName))"
    and "fst (ParseBool (GetInput os' mirrorDirectoryStructure)) =
         fst (ParseBool (GetInput os mirrorDirectoryStructure))"
    and "(GetInput os' ''overwrite'' = []) = (GetInput os ''overwrite'' = [])"
  shows "main os' svc r = main os svc r"
  unfolding main_def Let_def assms main_loop_platform [OF assms(2) assms(3)]
  by (rule refl)

section \<open>Boolean inputs\<close>

lemma ParseBool_error_False: "snd (ParseBool v) \<noteq> None \<Longrightarrow> fst (ParseBool v) = False"
  by (simp add: ParseBool_def split: if_splits)

lemma ParseBool_false: "ParseBool ''false'' = (False, None)"
  by (simp add: ParseBool_def)

text \<open>
  Claim C9. Let the overwrite, useCompleteSourceFilenameAsName or mirrorDirectoryStructure
  input be a non-empty string that \<^verbatim>\<open>strconv.ParseBool\<close> rejects. The error is dropped and
  the flag is false: the whole run, its outcome, its calls and what it writes, is the run
  with that input set to \<^verbatim>\<open>false\<close>. So the unparsable input does not end the run by
  itself.
\<close>

theorem unparsable_boolean_is_false:
  assumes "k \<in> {''overwrite'', useCompleteSourceName, mirrorDirectoryStructure}"
    and "v \<noteq> []" and "snd (ParseBool v) \<noteq> None"
  shows "main (withInput os k v) svc r = main (withInput os k ''false'') svc r"
proof -
  have pb: "fst (ParseBool v) = fst (ParseBool ''false'')"
    using assms(3) by (simp add: ParseBool_error_False ParseBool_false)
  consider "k = ''overwrite''" | "k = useCompleteSourceName" | "k = mirrorDirectoryStructure"
    using assms(1) by auto
  then show ?thesis
  proof cases
    case 1
    show ?thesis
      by (rule main_cong)
         (simp_all add: 1 assms(2) withInput_def filenameInput_def nameInput_def
            folderIdInput_def credentialsInput_def mimeTypeInput_def useCompleteSourceName_def
            mirrorDirectoryStructure_def namePrefixInput_def)
  next
    case 2
    show ?thesis
      by (rule main_cong)
         (simp_all add: 2 pb withInput_def filenameInput_def nameInput_def
            folderIdInput_def credentialsInput_def mimeTypeInput_def useCompleteSourceName_def
            mirrorDirectoryStructure_def namePrefixInput_def)
  next
    case 3
    show ?thesis
      by (rule main_cong)
         (simp_all add: 3 pb withInput_def filenameInput_def nameInput_def
            folderIdInput_def credentialsInput_def mimeTypeInput_def useCompleteSourceName_def
            mirrorDirectoryStructure_def namePrefixInput_def)
  qed
qed

theorem unparsable_boolean_is_false_witness:
  "mirrorDirectoryStructure \<in> {''overwrite'', useCompleteSourceName, mirrorDirectoryStructure}
   \<and> ''yes'' \<noteq> [] \<and> snd (ParseBool ''yes'') \<noteq> None
   \<and> main (withInput (examplePlatform [(''filename'', ''a/*.txt''), (''folderId'', ''root''),
                         (''credentials'', ''Y3JlZA=='')] [''a/f.txt''] [])
              mirrorDirectoryStructure ''yes'') exampleDrive []
     = main (withInput (examplePlatform [(''filename'', ''a/*.txt''), (''folderId'', ''root''),
                         (''credentials'', ''Y3JlZA=='')] [''a/f.txt''] [])
              mirrorDirectoryStructure ''false'') exampleDrive []"
  using unparsable_boolean_is_false
          [of mirrorDirectoryStructure "''yes''"
              "examplePlatform [(''filename'', ''a/*.txt''), (''folderId'', ''root''),
                         (''credentials'', ''Y3JlZA=='')] [''a/f.txt''] []" exampleDrive "[]"]
  by (simp add: ParseBool_def)

section \<open>Required inputs and the file pattern\<close>

lemma main_missing_filename:
  "GetInput os filenameInput = [] \<Longrightarrow>
   main os svc r = (Fatal (missingInput filenameInput), \<lparr>remote = r, calls = [], out = []\<rparr>)"
  by (simp add: main_def)

lemma main_glob_error:
  "GetInput os filenameInput \<noteq> [] \<Longrightarrow> Glob os (GetInput os filenameInput) = Inl err \<Longrightarrow>
   main os svc r = (Fatal (''Invalid filename pattern: '' @ err),
                    \<lparr>remote = r, calls = [], out = [printFiles []]\<rparr>)"
  by (simp add: main_def)

lemma main_no_file:
  "GetInput os filenameInput \<noteq> [] \<Longrightarrow> Glob os (GetInput os filenameInput) = Inr [] \<Longrightarrow>
   main os svc r = (Fatal (''No file found! pattern: '' @ GetInput os filenameInput),
                    \<lparr>remote = r, calls = [], out = [printFiles []]\<rparr>)"
  by (simp add: main_def)

lemma main_missing_folderId:
  "GetInput os filenameInput \<noteq> [] \<Longrightarrow> Glob os (GetInput os filenameInput) = Inr fs \<Longrightarrow>
   fs \<noteq> [] \<Longrightarrow> GetInput os folderIdInput = [] \<Longrightarrow>
   fst (main os svc r) = Fatal (missingInput folderIdInput) \<and> calls (snd (main os svc r)) = []"
  by (simp add: main_def Let_def)

lemma main_missing_credentials:
  "GetInput os filenameInput \<noteq> [] \<Longrightarrow> Glob os (GetInput os filenameInput) = Inr fs \<Longrightarrow>
   fs \<noteq> [] \<Longrightarrow> GetInput os folderIdInput \<noteq> [] \<Longrightarrow> GetInput os credentialsInput = [] \<Longrightarrow>
   fst (main os svc r) = Fatal (missingInput credentialsInput) \<and> calls (snd (main os svc r)) = []"
  by (simp add: main_def Let_def)

text \<open>
  Claim C7, as the program has it. When the filename, the folder id or the credentials
  input is empty, the run ends in \<^verbatim>\<open>Fatalf\<close> and has made no call to the Drive service.
  The message names the missing input when its check is the first to fail: the filename
  is checked first; the folder id and then the credentials are checked only after the
  pattern has expanded to at least one file.
\<close>

theorem missing_required_input_is_fatal:
  "(GetInput os filenameInput = [] \<or> GetInput os folderIdInput = []
      \<or> GetInput os credentialsInput = [] \<longrightarrow>
      (\<exists>msg. fst (main os svc r) = Fatal msg) \<and> calls (snd (main os svc r)) = [])
   \<and> (GetInput os filenameInput = [] \<longrightarrow>
        fst (main os svc r) = Fatal ''Input filename is missing or empty'')
   \<and> (GetInput os filenameInput \<noteq> [] \<and> Glob os (GetInput os filenameInput) = Inr fs \<and> fs \<noteq> []
        \<and> GetInput os folderIdInput = [] \<longrightarrow>
        fst (main os svc r) = Fatal ''Input folderId is missing or empty'')
   \<and> (GetInput os filenameInput \<noteq> [] \<and> Glob os (GetInput os filenameInput) = Inr fs \<and> fs \<noteq> []
        \<and> GetInput os folderIdInput \<noteq> [] \<and> GetInput os credentialsInput = [] \<longrightarrow>
        fst (main os svc r) = Fatal ''Input credentials is missing or empty'')"
proof -
  have a: "GetInput os filenameInput = [] \<or> GetInput os folderIdInput = []
      \<or> GetInput os credentialsInput = [] \<Longrightarrow>
      (\<exists>msg. fst (main os svc r) = Fatal msg) \<and> calls (snd (main os svc r)) = []"
  proof (cases "GetInput os filenameInput = []")
    case True
    then show ?thesis by (simp add: main_missing_filename)
  next
    case nf: False
    assume e: "GetInput os filenameInput = [] \<or> GetInput os folderIdInput = []
      \<or> GetInput os credentialsInput = []"
    show ?thesis
    proof (cases "Glob os (GetInput os filenameInput)")
      case (Inl err)
      with nf show ?thesis by (simp add: main_glob_error)
    next
      case (Inr fs)
      show ?thesis
      proof (cases "fs = []")
        case True
        with nf Inr show ?thesis by (simp add: main_no_file)
      next
        case ne: False
        show ?thesis
        proof (cases "GetInput os folderIdInput = []")
          case True
          with nf Inr ne show ?thesis by (simp add: main_missing_folderId)
        next
          case False
          with nf e have "GetInput os credentialsInput = []" by simp
          with nf Inr ne False show ?thesis by (simp add: main_missing_credentials)
        qed
      qed
    qed
  qed
  show ?thesis
    using a main_missing_filename [of os svc r] main_missing_folderId [of os fs svc r]
      main_missing_credentials [of os fs svc r]
    by (simp add: missingInput_def filenameInput_def folderIdInput_def credentialsInput_def)
qed

theorem missing_required_input_is_fatal_witness:
  "fst (main (examplePlatform [(''folderId'', ''root''), (''credentials'', ''Y3JlZA=='')]
               [''a.txt''] []) exampleDrive [])
     = Fatal ''Input filename is missing or empty''
   \<and> fst (main (examplePlatform [(''filename'', ''*.txt''), (''credentials'', ''Y3JlZA=='')]
               [''a.txt''] []) exampleDrive [])
     = Fatal ''Input folderId is missing or empty''
   \<and> fst (main (examplePlatform [(''filename'', ''*.txt''), (''folderId'', ''root'')]
               [''a.txt''] []) exampleDrive [])
     = Fatal ''Input credentials is missing or empty''
   \<and> calls (snd (main (examplePlatform [(''filename'', ''*.txt''), (''folderId'', ''root'')]
               [''a.txt''] []) exampleDrive [])) = []"
  using missing_required_input_is_fatal
          [of "examplePlatform [(''folderId'', ''root''), (''credentials'', ''Y3JlZA=='')]
                 [''a.txt''] []" exampleDrive "[]" "[''a.txt'']"]
        missing_required_input_is_fatal
          [of "examplePlatform [(''filename'', ''*.txt''), (''credentials'', ''Y3JlZA=='')]
                 [''a.txt''] []" exampleDrive "[]" "[''a.txt'']"]
        missing_required_input_is_fatal
          [of "examplePlatform [(''filename'', ''*.txt''), (''folderId'', ''root'')]
                 [''a.txt''] []" exampleDrive "[]" "[''a.txt'']"]
  by (simp add: examplePlatform_def inputsOf_def folderIdInput_def filenameInput_def
        credentialsInput_def)

text \<open>
  Claim C7 as stated fails: with the folder id missing and a pattern that matches no file,
  the run ends with the "no file found" message, which does not name the folder id.
\<close>

theorem missing_required_input_counterexample:
  "GetInput (examplePlatform [(''filename'', ''*.txt''), (''credentials'', ''Y3JlZA=='')] [] [])
      folderIdInput = []
   \<and> fst (main (examplePlatform [(''filename'', ''*.txt''), (''credentials'', ''Y3JlZA=='')] [] [])
             exampleDrive [])
       = Fatal ''No file found! pattern: *.txt''
   \<and> fst (main (examplePlatform [(''filename'', ''*.txt''), (''credentials'', ''Y3JlZA=='')] [] [])
             exampleDrive [])
       \<noteq> Fatal (missingInput folderIdInput)"
  by (simp add: main_def examplePlatform_def inputsOf_def folderIdInput_def filenameInput_def
        missingInput_def)



section \<open>The loop body, step by step\<close>

lemma main_loop_body_unfold:
  "main_loop_body os svc name folderId mimeType ucs mds namePrefix file w =
     (if mds \<and> Dir (escapeSpaces file) \<noteq> ''.'' then
        (case createDriveDirectory svc folderId (Dir (escapeSpaces file)) w of
           (Inl err, w1) \<Rightarrow>
             (Some (''Failed to create directory structure on Google Drive: '' @ err), w1)
         | (Inr folderId', w1) \<Rightarrow>
             checkAndUpload os svc name folderId mimeType ucs namePrefix file w1)
      else checkAndUpload os svc name folderId mimeType ucs namePrefix file w)"
  by (simp add: main_loop_body_def checkAndUpload_def Let_def split: prod.splits sum.splits)

lemma body_not_mirrored:
  "\<not> (mds \<and> Dir (escapeSpaces path) \<noteq> ''.'') \<Longrightarrow>
   main_loop_body os svc name folderId mimeType ucs mds namePrefix path w
     = checkAndUpload os svc name folderId mimeType ucs namePrefix path w"
  by (simp only: main_loop_body_unfold if_False)

lemma body_mirrored:
  "mds \<and> Dir (escapeSpaces path) \<noteq> ''.'' \<Longrightarrow>
   main_loop_body os svc name folderId mimeType ucs mds namePrefix path w =
     (case createDriveDirectory svc folderId (Dir (escapeSpaces path)) w of
        (Inl err, w1) \<Rightarrow>
          (Some (''Failed to create directory structure on Google Drive: '' @ err), w1)
      | (Inr folderId', w1) \<Rightarrow>
          checkAndUpload os svc name folderId mimeType ucs namePrefix path w1)"
  by (simp add: main_loop_body_unfold)

lemma uploadToDrive_uploads:
  "\<exists>us. calls (snd (uploadToDrive os svc path folderId df name mimeType w)) = calls w @ us
        \<and> (\<forall>u \<in> set us. isUpload u)"
  by (auto simp add: uploadToDrive_def Let_def split: prod.splits sum.splits option.splits)

lemma checkAndUpload_calls:
  "\<exists>us. calls (snd (checkAndUpload os svc name folderId mimeType ucs namePrefix path w)) =
          calls w @ FilesList (findQuery (uploadedFileName ucs namePrefix name path) folderId) # us
        \<and> (\<forall>u \<in> set us. isUpload u)"
proof -
  let ?n = "uploadedFileName ucs namePrefix name path"
  obtain a w2 where f: "findFileByName svc ?n folderId w = (a, w2)"
    by (cases "findFileByName svc ?n folderId w")
  then have c2: "calls w2 = calls w @ [FilesList (findQuery ?n folderId)]"
    using findFileByName_calls [of svc ?n folderId w] by simp
  show ?thesis
  proof (cases a)
    case (Inl err)
    with f c2 show ?thesis by (simp add: checkAndUpload_def)
  next
    case (Inr df)
    obtain b w3 where u: "uploadToDrive os svc path folderId df ?n mimeType w2 = (b, w3)"
      by (cases "uploadToDrive os svc path folderId df ?n mimeType w2")
    obtain us where us: "calls w3 = calls w2 @ us" "\<forall>u \<in> set us. isUpload u"
      using uploadToDrive_uploads [of os svc path folderId df ?n mimeType w2] u by auto
    with Inr f c2 u show ?thesis
      by (cases b) (simp_all add: checkAndUpload_def)
  qed
qed

lemma checkAndUpload_dir:
  assumes "Lstat os path = Inr True"
  shows "checkAndUpload os svc name folderId mimeType ucs namePrefix path w =
     (case findFileByName svc (uploadedFileName ucs namePrefix name path) folderId w of
        (Inl err, w2) \<Rightarrow> (Some (''Failed to check existing files in the folder: '' @ err), w2)
      | (Inr driveFile, w2) \<Rightarrow>
          (None, w2\<lparr>out := out w2 @ [Printf (path @ '' is a directory. skipping upload.''),
                                     Infof ''Uploaded file: '']\<rparr>))"
  by (simp add: checkAndUpload_def uploadToDrive_dir [OF assms] split: prod.splits sum.splits)

lemma checkAndUpload_regular:
  assumes "Lstat os path = Inr False" and "Open os path = Inr h"
    and "Files_List_Do svc (remote w) (findQuery (uploadedFileName ucs namePrefix name path) folderId)
           = (Inr fs, r')"
  shows "calls (snd (checkAndUpload os svc name folderId mimeType ucs namePrefix path w)) =
     calls w @ [FilesList (findQuery (uploadedFileName ucs namePrefix name path) folderId),
                (case fs of
                   [] \<Rightarrow> FilesCreate \<lparr>FileId = [], Name = uploadedFileName ucs namePrefix name path,
                                       MimeType = mimeType, Parents = [folderId]\<rparr> (Some h)
                 | f # _ \<Rightarrow> FilesUpdate (FileId f)
                               \<lparr>FileId = [], Name = uploadedFileName ucs namePrefix name path,
                                  MimeType = mimeType, Parents = []\<rparr> folderId h)]"
  using assms
  by (cases fs)
     (simp_all add: checkAndUpload_def findFileByName_def uploadToDrive_def Let_def
        split: prod.splits sum.splits)

lemma folderCreates_isFolderCreate:
  "filter isFolderCreate (folderCreates svc p n w) = folderCreates svc p n w"
  "filter isUpload (folderCreates svc p n w) = []"
  by (simp_all add: folderCreates_def split: sum.splits)

lemma uploads_not_folder: "\<forall>u \<in> set us. isUpload u \<Longrightarrow> filter isFolderCreate us = []"
proof (induction us)
  case Nil
  then show ?case by simp
next
  case (Cons u us)
  then show ?case by (cases u) simp_all
qed

lemma body_calls_mirrored:
  assumes "mds \<and> Dir (escapeSpaces path) \<noteq> ''.''"
  shows "\<exists>zs. calls (snd (main_loop_body os svc name folderId mimeType ucs mds namePrefix path w))
            = calls (snd (createDriveDirectory svc folderId (Dir (escapeSpaces path)) w)) @ zs
          \<and> filter isFolderCreate zs = []"
proof -
  let ?d = "Dir (escapeSpaces path)"
  obtain a w1 where c: "createDriveDirectory svc folderId ?d w = (a, w1)"
    by (cases "createDriveDirectory svc folderId ?d w")
  show ?thesis
  proof (cases a)
    case (Inl err)
    with c show ?thesis by (simp add: body_mirrored [OF assms])
  next
    case (Inr i)
    obtain us where "calls (snd (checkAndUpload os svc name folderId mimeType ucs namePrefix path w1))
        = calls w1 @ FilesList (findQuery (uploadedFileName ucs namePrefix name path) folderId) # us"
      and "\<forall>u \<in> set us. isUpload u"
      using checkAndUpload_calls [of os svc name folderId mimeType ucs namePrefix path w1] by auto
    with Inr c show ?thesis
      by (simp add: body_mirrored [OF assms] uploads_not_folder)
  qed
qed

lemma Dir_examples:
  "Dir (escapeSpaces ''a/b/file.txt'') = ''a/b''"
  "Dir (escapeSpaces ''a/f.txt'') = ''a''"
  "Dir (escapeSpaces ''f.txt'') = ''.''"
  by code_simp+

lemma body_first_call:
  "\<exists>us. calls (snd (main_loop_body os svc name folderId mimeType ucs False namePrefix path w))
         = calls w @ FilesList (findQuery (uploadedFileName ucs namePrefix name path) folderId) # us"
proof -
  have nm: "\<not> (False \<and> Dir (escapeSpaces path) \<noteq> ''.'')" by simp
  show ?thesis
    using checkAndUpload_calls [of os svc name folderId mimeType ucs namePrefix path w]
    by (simp only: body_not_mirrored [OF nm]) blast
qed

section \<open>The name of the uploaded file\<close>

text \<open>
  Claim C3, as the program has it. With the "use complete source path as name" flag, the
  name of the uploaded file is the matched path itself, whatever the prefix and the
  explicit name: the prefix, explicit-name and base-name rules are skipped. The path is
  taken as it is, its spaces are not escaped: the name equals the escaped path exactly
  when the path has no space. (The escaped path is only used to compute the directory to
  mirror.) That raw path is the name the existence check asks for.
\<close>

theorem complete_source_name_is_raw_path:
  "uploadedFileName True namePrefix name path = path
   \<and> (uploadedFileName True namePrefix name path = escapeSpaces path
        \<longleftrightarrow> CHR '' '' \<notin> set path)
   \<and> (\<exists>us. calls (snd (main_loop_body os svc name folderId mimeType True False namePrefix
                           path w))
             = calls w @ FilesList (findQuery path folderId) # us)"
proof -
  have n: "uploadedFileName True namePrefix name path = path"
    by (simp add: uploadedFileName_def)
  have "\<exists>us. calls (snd (main_loop_body os svc name folderId mimeType True False namePrefix
                           path w))
             = calls w @ FilesList (findQuery path folderId) # us"
    using body_first_call [of os svc name folderId mimeType True namePrefix path w]
    by (simp only: n)
  then show ?thesis
    using escapeSpaces_id_iff [of path] by (auto simp add: n)
qed

text \<open>
  Claim C3 as stated fails: with the flag set, prefix \<^verbatim>\<open>p-\<close> and explicit name
  \<^verbatim>\<open>explicit\<close>, the path \<^verbatim>\<open>dir/a b.txt\<close> resolves to \<^verbatim>\<open>dir/a b.txt\<close>, which is not the
  path with its space escaped.
\<close>

theorem complete_source_name_counterexample:
  "uploadedFileName True ''p-'' ''explicit'' ''dir/a b.txt'' = ''dir/a b.txt''
   \<and> uploadedFileName True ''p-'' ''explicit'' ''dir/a b.txt'' \<noteq> escapeSpaces ''dir/a b.txt''"
  by (simp add: uploadedFileName_def escapeSpaces_def)

text \<open>
  Claim C4. The name is resolved by the first rule that applies, per file: the complete
  source path when the flag is set; else the prefix followed by the base name when a
  prefix is configured, whatever the explicit name; else the explicit name, the same for
  every file; else the base name. With the flag unset and prefix \<^verbatim>\<open>p-\<close>, the file
  \<^verbatim>\<open>report.csv\<close> resolves to \<^verbatim>\<open>p-report.csv\<close> for every explicit name. The name so
  resolved is the one the loop body asks the existence check for.
\<close>

theorem uploadedFileName_precedence:
  "(ucs \<longrightarrow> uploadedFileName ucs namePrefix name path = path)
   \<and> (\<not> ucs \<and> namePrefix \<noteq> [] \<longrightarrow>
        uploadedFileName ucs namePrefix name path = namePrefix @ Base path)
   \<and> (\<not> ucs \<and> namePrefix = [] \<and> name \<noteq> [] \<longrightarrow>
        uploadedFileName ucs namePrefix name path = name)
   \<and> (\<not> ucs \<and> namePrefix = [] \<and> name = [] \<longrightarrow>
        uploadedFileName ucs namePrefix name path = Base path)
   \<and> uploadedFileName False ''p-'' name ''report.csv'' = ''p-report.csv''
   \<and> (\<exists>us. calls (snd (main_loop_body os svc name folderId mimeType ucs False namePrefix
                           path w))
             = calls w
               @ FilesList (findQuery (uploadedFileName ucs namePrefix name path) folderId) # us)"
  using body_first_call [of os svc name folderId mimeType ucs namePrefix path w]
  by (simp add: uploadedFileName_def Base_def stripTrailing_def IsPathSeparator_def)

theorem uploadedFileName_precedence_witness:
  "uploadedFileName True ''p-'' ''explicit'' ''dir/report.csv'' = ''dir/report.csv''
   \<and> uploadedFileName False ''p-'' ''explicit'' ''dir/report.csv'' = ''p-report.csv''
   \<and> uploadedFileName False [] ''doc'' ''dir/report.csv'' = ''doc''
   \<and> uploadedFileName False [] ''doc'' ''other/notes.md'' = ''doc''
   \<and> uploadedFileName False [] [] ''dir/report.csv'' = ''report.csv''"
proof -
  note t = uploadedFileName_precedence
             [where os = "examplePlatform exampleInputs [] []" and svc = exampleDrive
                and folderId = "''root''" and mimeType = "[]" and w = "startWorld []"]
  have b: "Base ''dir/report.csv'' = ''report.csv''"
    by code_simp
  from t [where ucs = True and namePrefix = "''p-''" and name = "''explicit''"
            and path = "''dir/report.csv''"]
  have c1: "uploadedFileName True ''p-'' ''explicit'' ''dir/report.csv'' = ''dir/report.csv''"
    by simp
  from t [where ucs = False and namePrefix = "''p-''" and name = "''explicit''"
            and path = "''dir/report.csv''"]
  have c2: "uploadedFileName False ''p-'' ''explicit'' ''dir/report.csv''
              = ''p-'' @ Base ''dir/report.csv''"
    by simp
  from t [where ucs = False and namePrefix = "[]" and name = "''doc''"
            and path = "''dir/report.csv''"]
  have c3: "uploadedFileName False [] ''doc'' ''dir/report.csv'' = ''doc''"
    by simp
  from t [where ucs = False and namePrefix = "[]" and name = "''doc''"
            and path = "''other/notes.md''"]
  have c4: "uploadedFileName False [] ''doc'' ''other/notes.md'' = ''doc''"
    by simp
  from t [where ucs = False and namePrefix = "[]" and name = "[]"
            and path = "''dir/report.csv''"]
  have c5: "uploadedFileName False [] [] ''dir/report.csv'' = Base ''dir/report.csv''"
    by simp
  show ?thesis
    using c1 c2 c3 c4 c5 by (simp add: b)
qed

section \<open>Worlds that differ in the written output only\<close>

lemma findFileByName_sameDrive:
  "sameDrive w w' \<Longrightarrow>
   fst (findFileByName svc n p w) = fst (findFileByName svc n p w')
   \<and> sameDrive (snd (findFileByName svc n p w)) (snd (findFileByName svc n p w'))"
  by (simp add: sameDrive_def findFileByName_def Let_def split: prod.splits sum.splits)

lemma createDriveDirectory_sameDrive:
  "sameDrive w w' \<Longrightarrow>
   fst (createDriveDirectory svc p n w) = fst (createDriveDirectory svc p n w')
   \<and> sameDrive (snd (createDriveDirectory svc p n w)) (snd (createDriveDirectory svc p n w'))"
  by (simp add: sameDrive_def createDriveDirectory_def findFileByName_def Let_def
           split: prod.splits sum.splits option.splits)

lemma uploadToDrive_sameDrive:
  "sameDrive w w' \<Longrightarrow>
   fst (uploadToDrive os svc file folderId df name mimeType w)
     = fst (uploadToDrive os svc file folderId df name mimeType w')
   \<and> sameDrive (snd (uploadToDrive os svc file folderId df name mimeType w))
        (snd (uploadToDrive os svc file folderId df name mimeType w'))"
  by (auto simp add: sameDrive_def uploadToDrive_def Let_def
            split: prod.splits sum.splits option.splits)

lemma checkAndUpload_sameDrive:
  assumes "sameDrive w w'"
  shows "fst (checkAndUpload os svc name folderId mimeType ucs namePrefix file w)
           = fst (checkAndUpload os svc name folderId mimeType ucs namePrefix file w')
         \<and> sameDrive (snd (checkAndUpload os svc name folderId mimeType ucs namePrefix file w))
              (snd (checkAndUpload os svc name folderId mimeType ucs namePrefix file w'))"
proof -
  let ?n = "uploadedFileName ucs namePrefix name file"
  obtain a w2 where f: "findFileByName svc ?n folderId w = (a, w2)"
    by (cases "findFileByName svc ?n folderId w")
  obtain a' w2' where f': "findFileByName svc ?n folderId w' = (a', w2')"
    by (cases "findFileByName svc ?n folderId w'")
  from findFileByName_sameDrive [OF assms, of svc ?n folderId] f f'
  have a: "a' = a" and s2: "sameDrive w2 w2'" by simp_all
  show ?thesis
  proof (cases a)
    case (Inl err)
    with f f' a s2 show ?thesis by (simp add: checkAndUpload_def)
  next
    case (Inr df)
    obtain b w3 where u: "uploadToDrive os svc file folderId df ?n mimeType w2 = (b, w3)"
      by (cases "uploadToDrive os svc file folderId df ?n mimeType w2")
    obtain b' w3' where u': "uploadToDrive os svc file folderId df ?n mimeType w2' = (b', w3')"
      by (cases "uploadToDrive os svc file folderId df ?n mimeType w2'")
    from uploadToDrive_sameDrive [OF s2, of os svc "file" folderId df ?n mimeType] u u'
    have b: "b' = b" and s3: "sameDrive w3 w3'" by simp_all
    from s3 have "\<And>x y. sameDrive (w3\<lparr>out := x\<rparr>) (w3'\<lparr>out := y\<rparr>)"
      by (simp add: sameDrive_def)
    with Inr f f' a u u' b s3 show ?thesis
      by (cases b) (simp_all add: checkAndUpload_def)
  qed
qed

lemma main_loop_body_sameDrive:
  assumes "sameDrive w w'"
  shows "fst (main_loop_body os svc name folderId mimeType ucs mds namePrefix file w)
           = fst (main_loop_body os svc name folderId mimeType ucs mds namePrefix file w')
         \<and> sameDrive (snd (main_loop_body os svc name folderId mimeType ucs mds namePrefix file w))
              (snd (main_loop_body os svc name folderId mimeType ucs mds namePrefix file w'))"
proof (cases "mds \<and> Dir (escapeSpaces file) \<noteq> ''.''")
  case False
  have "\<And>w. main_loop_body os svc name folderId mimeType ucs mds namePrefix file w
          = checkAndUpload os svc name folderId mimeType ucs namePrefix file w"
    by (simp only: main_loop_body_unfold False if_False)
  then show ?thesis
    using checkAndUpload_sameDrive [OF assms] by simp
next
  case True
  let ?d = "Dir (escapeSpaces file)"
  obtain a w1 where c: "createDriveDirectory svc folderId ?d w = (a, w1)"
    by (cases "createDriveDirectory svc folderId ?d w")
  obtain a' w1' where c': "createDriveDirectory svc folderId ?d w' = (a', w1')"
    by (cases "createDriveDirectory svc folderId ?d w'")
  from createDriveDirectory_sameDrive [OF assms, of svc folderId ?d] c c'
  have a: "a' = a" and s1: "sameDrive w1 w1'" by simp_all
  have eq: "\<And>w. main_loop_body os svc name folderId mimeType ucs mds namePrefix file w =
      (case createDriveDirectory svc folderId ?d w of
         (Inl err, w1) \<Rightarrow>
           (Some (''Failed to create directory structure on Google Drive: '' @ err), w1)
       | (Inr folderId', w1) \<Rightarrow>
           checkAndUpload os svc name folderId mimeType ucs namePrefix file w1)"
    using True by (simp add: main_loop_body_unfold)
  show ?thesis
    using c c' a s1 checkAndUpload_sameDrive [OF s1]
    by (cases a) (simp_all add: eq)
qed

lemma main_loop_sameDrive:
  "sameDrive w w' \<Longrightarrow>
   fst (main_loop os svc name folderId mimeType ucs mds namePrefix files w)
     = fst (main_loop os svc name folderId mimeType ucs mds namePrefix files w')
   \<and> sameDrive (snd (main_loop os svc name folderId mimeType ucs mds namePrefix files w))
        (snd (main_loop os svc name folderId mimeType ucs mds namePrefix files w'))"
proof (induction files arbitrary: w w')
  case Nil
  then show ?case by simp
next
  case (Cons f fs)
  obtain a w1 where b: "main_loop_body os svc name folderId mimeType ucs mds namePrefix f w = (a, w1)"
    by (cases "main_loop_body os svc name folderId mimeType ucs mds namePrefix f w")
  obtain a' w1' where b': "main_loop_body os svc name folderId mimeType ucs mds namePrefix f w' = (a', w1')"
    by (cases "main_loop_body os svc name folderId mimeType ucs mds namePrefix f w'")
  from main_loop_body_sameDrive [OF Cons.prems, of os svc name folderId mimeType ucs mds namePrefix f] b b'
  have a: "a' = a" and s1: "sameDrive w1 w1'" by simp_all
  show ?case
    using b b' a s1 Cons.IH [OF s1] by (cases a) simp_all
qed

lemma main_loop_same_fst:
  "remote w = remote w' \<Longrightarrow> calls w = calls w' \<Longrightarrow>
   fst (main_loop os svc name folderId mimeType ucs mds namePrefix files w)
     = fst (main_loop os svc name folderId mimeType ucs mds namePrefix files w')"
  using main_loop_sameDrive [of w w'] by (simp add: sameDrive_def)

lemma main_loop_same_remote:
  "remote w = remote w' \<Longrightarrow> calls w = calls w' \<Longrightarrow>
   remote (snd (main_loop os svc name folderId mimeType ucs mds namePrefix files w))
     = remote (snd (main_loop os svc name folderId mimeType ucs mds namePrefix files w'))"
  using main_loop_sameDrive [of w w'] by (simp add: sameDrive_def)

lemma main_loop_same_calls:
  "remote w = remote w' \<Longrightarrow> calls w = calls w' \<Longrightarrow>
   calls (snd (main_loop os svc name folderId mimeType ucs mds namePrefix files w))
     = calls (snd (main_loop os svc name folderId mimeType ucs mds namePrefix files w'))"
  using main_loop_sameDrive [of w w'] by (simp add: sameDrive_def)

text \<open>The value of the overwrite input changes neither the outcome, nor the calls, nor the
  Drive: it only decides whether the warning is written.\<close>

lemma main_overwrite_irrelevant:
  "fst (main (withInput os ''overwrite'' v) svc r) = fst (main os svc r)
   \<and> remote (snd (main (withInput os ''overwrite'' v) svc r)) = remote (snd (main os svc r))
   \<and> calls (snd (main (withInput os ''overwrite'' v) svc r)) = calls (snd (main os svc r))"
proof -
  let ?os = "withInput os ''overwrite'' v"
  have loop: "\<And>name folderId mimeType ucs mds namePrefix files w.
      main_loop ?os svc name folderId mimeType ucs mds namePrefix files w =
      main_loop os svc name folderId mimeType ucs mds namePrefix files w"
    by (rule main_loop_platform) (simp_all add: withInput_def)
  have inp: "\<And>k. k \<noteq> ''overwrite'' \<Longrightarrow> GetInput ?os k = GetInput os k"
    by (simp add: withInput_def)
  have others: "Glob ?os = Glob os" "DecodeString ?os = DecodeString os"
    "JWTConfigFromJSON ?os = JWTConfigFromJSON os" "NewService ?os = NewService os"
    by (simp_all add: withInput_def)
  have names: "filenameInput \<noteq> ''overwrite''" "nameInput \<noteq> ''overwrite''"
    "folderIdInput \<noteq> ''overwrite''" "mimeTypeInput \<noteq> ''overwrite''"
    "useCompleteSourceName \<noteq> ''overwrite''" "mirrorDirectoryStructure \<noteq> ''overwrite''"
    "namePrefixInput \<noteq> ''overwrite''" "credentialsInput \<noteq> ''overwrite''"
    by (simp_all add: filenameInput_def nameInput_def folderIdInput_def mimeTypeInput_def
          useCompleteSourceName_def mirrorDirectoryStructure_def namePrefixInput_def
          credentialsInput_def)
  show ?thesis
    unfolding main_def Let_def loop others inp [OF names(1)] inp [OF names(2)] inp [OF names(3)]
      inp [OF names(4)] inp [OF names(5)] inp [OF names(6)] inp [OF names(7)] inp [OF names(8)]
    by (auto split: sum.splits
          intro!: main_loop_same_fst main_loop_same_remote main_loop_same_calls)
qed

section \<open>Mirroring the directory\<close>

text \<open>
  Claim C1, as the program has it. When mirroring is enabled and the directory of the
  (space-escaped) path is not \<^verbatim>\<open>.\<close>, the loop body starts with one call of
  \<^verbatim>\<open>createDriveDirectory\<close> on the root folder and the whole directory string (\<^verbatim>\<open>a/b\<close> for
  \<^verbatim>\<open>a/b/file.txt\<close>), not one per segment. That call looks up a folder of exactly that name
  under the root folder; when one is found it is reused and nothing is created; when none
  is found one folder of that name is created, with the root folder as parent; when the
  lookup fails nothing is created. These are the only folder creations for the file: at
  most one, and none when mirroring does not apply.
\<close>

theorem mirror_is_one_lookup_of_whole_directory:
  "(fst (Files_List_Do svc (remote w) (findQuery folderName parent)) = Inr [] \<longrightarrow>
      calls (snd (createDriveDirectory svc parent folderName w)) =
        calls w @ [FilesList (findQuery folderName parent),
                   FilesCreate \<lparr>FileId = [], Name = folderName,
                                 MimeType = ''application/vnd.google-apps.folder'',
                                 Parents = [parent]\<rparr> None])
   \<and> (fst (Files_List_Do svc (remote w) (findQuery folderName parent)) = Inr (f # fs) \<longrightarrow>
        calls (snd (createDriveDirectory svc parent folderName w)) =
          calls w @ [FilesList (findQuery folderName parent)]
        \<and> fst (createDriveDirectory svc parent folderName w) = Inr (FileId f))
   \<and> (fst (Files_List_Do svc (remote w) (findQuery folderName parent)) = Inl e \<longrightarrow>
        calls (snd (createDriveDirectory svc parent folderName w)) =
          calls w @ [FilesList (findQuery folderName parent)])
   \<and> (mds \<and> Dir (escapeSpaces path) \<noteq> ''.'' \<longrightarrow>
        prefix (calls (snd (createDriveDirectory svc folderId (Dir (escapeSpaces path)) w)))
          (calls (snd (main_loop_body os svc name folderId mimeType ucs mds namePrefix path w)))
        \<and> filter isFolderCreate
            (calls (snd (main_loop_body os svc name folderId mimeType ucs mds namePrefix path w)))
          = filter isFolderCreate
              (calls (snd (createDriveDirectory svc folderId (Dir (escapeSpaces path)) w))))
   \<and> (\<not> (mds \<and> Dir (escapeSpaces path) \<noteq> ''.'') \<longrightarrow>
        filter isFolderCreate
            (calls (snd (main_loop_body os svc name folderId mimeType ucs mds namePrefix path w)))
          = filter isFolderCreate (calls w))"
proof -
  have a: "fst (Files_List_Do svc (remote w) (findQuery folderName parent)) = Inr [] \<longrightarrow>
      calls (snd (createDriveDirectory svc parent folderName w)) =
        calls w @ [FilesList (findQuery folderName parent),
                   FilesCreate \<lparr>FileId = [], Name = folderName,
                                 MimeType = ''application/vnd.google-apps.folder'',
                                 Parents = [parent]\<rparr> None]"
    by (simp add: createDriveDirectory_calls folderCreates_def)
  have b: "fst (Files_List_Do svc (remote w) (findQuery folderName parent)) = Inr (f # fs) \<longrightarrow>
        calls (snd (createDriveDirectory svc parent folderName w)) =
          calls w @ [FilesList (findQuery folderName parent)]
        \<and> fst (createDriveDirectory svc parent folderName w) = Inr (FileId f)"
    by (auto simp add: createDriveDirectory_calls folderCreates_def createDriveDirectory_def
          findFileByName_def Let_def split: prod.splits)
  have c: "fst (Files_List_Do svc (remote w) (findQuery folderName parent)) = Inl e \<longrightarrow>
        calls (snd (createDriveDirectory svc parent folderName w)) =
          calls w @ [FilesList (findQuery folderName parent)]"
    by (simp add: createDriveDirectory_calls folderCreates_def)
  have d: "mds \<and> Dir (escapeSpaces path) \<noteq> ''.'' \<longrightarrow>
        prefix (calls (snd (createDriveDirectory svc folderId (Dir (escapeSpaces path)) w)))
          (calls (snd (main_loop_body os svc name folderId mimeType ucs mds namePrefix path w)))
        \<and> filter isFolderCreate
            (calls (snd (main_loop_body os svc name folderId mimeType ucs mds namePrefix path w)))
          = filter isFolderCreate
              (calls (snd (createDriveDirectory svc folderId (Dir (escapeSpaces path)) w)))"
  proof
    assume m: "mds \<and> Dir (escapeSpaces path) \<noteq> ''.''"
    from body_calls_mirrored [OF m, of os svc name folderId mimeType ucs namePrefix w]
    obtain zs where "calls (snd (main_loop_body os svc name folderId mimeType ucs mds namePrefix path w))
            = calls (snd (createDriveDirectory svc folderId (Dir (escapeSpaces path)) w)) @ zs"
      and "filter isFolderCreate zs = []" by blast
    then show "prefix (calls (snd (createDriveDirectory svc folderId (Dir (escapeSpaces path)) w)))
          (calls (snd (main_loop_body os svc name folderId mimeType ucs mds namePrefix path w)))
        \<and> filter isFolderCreate
            (calls (snd (main_loop_body os svc name folderId mimeType ucs mds namePrefix path w)))
          = filter isFolderCreate
              (calls (snd (createDriveDirectory svc folderId (Dir (escapeSpaces path)) w)))"
      by simp
  qed
  have e: "\<not> (mds \<and> Dir (escapeSpaces path) \<noteq> ''.'') \<longrightarrow>
        filter isFolderCreate
            (calls (snd (main_loop_body os svc name folderId mimeType ucs mds namePrefix path w)))
          = filter isFolderCreate (calls w)"
  proof
    assume m: "\<not> (mds \<and> Dir (escapeSpaces path) \<noteq> ''.'')"
    obtain us where "calls (snd (checkAndUpload os svc name folderId mimeType ucs namePrefix path w))
        = calls w @ FilesList (findQuery (uploadedFileName ucs namePrefix name path) folderId) # us"
      and "\<forall>u \<in> set us. isUpload u"
      using checkAndUpload_calls [of os svc name folderId mimeType ucs namePrefix path w] by auto
    then show "filter isFolderCreate
            (calls (snd (main_loop_body os svc name folderId mimeType ucs mds namePrefix path w)))
          = filter isFolderCreate (calls w)"
      by (simp add: body_not_mirrored [OF m] uploads_not_folder)
  qed
  from a b c d e show ?thesis by blast
qed

theorem mirror_is_one_lookup_of_whole_directory_witness:
  "fst (Files_List_Do exampleDrive (remote (startWorld [])) (findQuery ''a/b'' ''root'')) = Inr []
   \<and> calls (snd (createDriveDirectory exampleDrive ''root'' ''a/b'' (startWorld []))) =
        [FilesList (findQuery ''a/b'' ''root''),
         FilesCreate \<lparr>FileId = [], Name = ''a/b'',
                       MimeType = ''application/vnd.google-apps.folder'',
                       Parents = [''root'']\<rparr> None]
   \<and> fst (Files_List_Do exampleDrive (remote (startWorld [existingFolder]))
            (findQuery ''a/b'' ''root'')) = Inr [existingFolder]
   \<and> calls (snd (createDriveDirectory exampleDrive ''root'' ''a/b'' (startWorld [existingFolder])))
        = [FilesList (findQuery ''a/b'' ''root'')]
   \<and> fst (createDriveDirectory exampleDrive ''root'' ''a/b'' (startWorld [existingFolder]))
        = Inr ''F1''
   \<and> Dir (escapeSpaces ''a/b/file.txt'') \<noteq> ''.''
   \<and> prefix [FilesList (findQuery ''a/b'' ''root'')]
        (calls (snd (main_loop_body (examplePlatform exampleInputs [''a/b/file.txt''] [])
                       exampleDrive [] ''root'' [] False True [] ''a/b/file.txt''
                       (startWorld [existingFolder]))))
   \<and> filter isFolderCreate
        (calls (snd (main_loop_body (examplePlatform exampleInputs [''a/b/file.txt''] [])
                       exampleDrive [] ''root'' [] False True [] ''a/b/file.txt''
                       (startWorld [existingFolder])))) = []
   \<and> filter isFolderCreate
        (calls (snd (main_loop_body (examplePlatform exampleInputs [''a/b/file.txt''] [])
                       exampleDrive [] ''root'' [] False False [] ''a/b/file.txt''
                       (startWorld [])))) = []"
proof -
  have h1: "fst (Files_List_Do exampleDrive (remote (startWorld []))
                  (findQuery ''a/b'' ''root'')) = Inr []"
    by code_simp
  have h2: "fst (Files_List_Do exampleDrive (remote (startWorld [existingFolder]))
                  (findQuery ''a/b'' ''root'')) = Inr (existingFolder # [])"
    by code_simp
  have h3: "True \<and> Dir (escapeSpaces ''a/b/file.txt'') \<noteq> ''.''"
    by (simp add: Dir_examples)
  have h4: "\<not> (False \<and> Dir (escapeSpaces ''a/b/file.txt'') \<noteq> ''.'')"
    by simp
  note t1 = mirror_is_one_lookup_of_whole_directory
          [where svc = exampleDrive and w = "startWorld []" and folderName = "''a/b''"
             and parent = "''root''" and mds = False and path = "''a/b/file.txt''"
             and os = "examplePlatform exampleInputs [''a/b/file.txt''] []"
             and name = "[]" and folderId = "''root''" and mimeType = "[]" and ucs = False
             and namePrefix = "[]"]
  note t2 = mirror_is_one_lookup_of_whole_directory
          [where svc = exampleDrive and w = "startWorld [existingFolder]"
             and folderName = "''a/b''" and parent = "''root''" and f = existingFolder
             and fs = "[]" and mds = True and path = "''a/b/file.txt''"
             and os = "examplePlatform exampleInputs [''a/b/file.txt''] []"
             and name = "[]" and folderId = "''root''" and mimeType = "[]" and ucs = False
             and namePrefix = "[]"]
  from t1 h1 have c1: "calls (snd (createDriveDirectory exampleDrive ''root'' ''a/b'' (startWorld [])))
      = calls (startWorld []) @ [FilesList (findQuery ''a/b'' ''root''),
         FilesCreate \<lparr>FileId = [], Name = ''a/b'',
                       MimeType = ''application/vnd.google-apps.folder'',
                       Parents = [''root'']\<rparr> None]"
    by simp
  from t1 h4 have c2: "filter isFolderCreate
        (calls (snd (main_loop_body (examplePlatform exampleInputs [''a/b/file.txt''] [])
                       exampleDrive [] ''root'' [] False False [] ''a/b/file.txt''
                       (startWorld [])))) = filter isFolderCreate (calls (startWorld []))"
    by simp
  from t2 h2 have c3: "calls (snd (createDriveDirectory exampleDrive ''root'' ''a/b''
                                     (startWorld [existingFolder])))
        = calls (startWorld [existingFolder]) @ [FilesList (findQuery ''a/b'' ''root'')]
      \<and> fst (createDriveDirectory exampleDrive ''root'' ''a/b'' (startWorld [existingFolder]))
        = Inr (FileId existingFolder)"
    by simp
  from t2 h3 have c4: "prefix (calls (snd (createDriveDirectory exampleDrive ''root''
                          (Dir (escapeSpaces ''a/b/file.txt'')) (startWorld [existingFolder]))))
        (calls (snd (main_loop_body (examplePlatform exampleInputs [''a/b/file.txt''] [])
                       exampleDrive [] ''root'' [] False True [] ''a/b/file.txt''
                       (startWorld [existingFolder]))))
      \<and> filter isFolderCreate
        (calls (snd (main_loop_body (examplePlatform exampleInputs [''a/b/file.txt''] [])
                       exampleDrive [] ''root'' [] False True [] ''a/b/file.txt''
                       (startWorld [existingFolder]))))
        = filter isFolderCreate (calls (snd (createDriveDirectory exampleDrive ''root''
                          (Dir (escapeSpaces ''a/b/file.txt'')) (startWorld [existingFolder]))))"
    by simp
  have s: "calls (startWorld []) = []" "calls (startWorld [existingFolder]) = []"
    "FileId existingFolder = ''F1''"
    by (simp_all add: startWorld_def existingFolder_def)
  show ?thesis
    using h1 h2 h3 c1 c2 c3 c4 by (simp add: s Dir_examples)
qed

text \<open>
  Claim C1 as stated fails: for \<^verbatim>\<open>a/b/file.txt\<close> on an empty Drive the program never looks
  up the segment \<^verbatim>\<open>a\<close>; it looks up and creates one folder named \<^verbatim>\<open>a/b\<close>.
\<close>

theorem segments_counterexample:
  "calls (snd (main (examplePlatform ((''mirrorDirectoryStructure'', ''true'') # exampleInputs)
                       [''a/b/file.txt''] []) exampleDrive []))
     = [FilesList (findQuery ''a/b'' ''root''),
        FilesCreate \<lparr>FileId = [], Name = ''a/b'',
                      MimeType = ''application/vnd.google-apps.folder'',
                      Parents = [''root'']\<rparr> None,
        FilesList (findQuery ''file.txt'' ''root''),
        FilesCreate \<lparr>FileId = [], Name = ''file.txt'', MimeType = [], Parents = [''root'']\<rparr>
          (Some ''contents of a/b/file.txt'')]
   \<and> FilesList (findQuery ''a'' ''root'')
       \<notin> set (calls (snd (main (examplePlatform
                                   ((''mirrorDirectoryStructure'', ''true'') # exampleInputs)
                                   [''a/b/file.txt''] []) exampleDrive [])))"
  by code_simp

text \<open>
  Claim C2, on the input \<^verbatim>\<open>a/f.txt\<close> with mirroring enabled and an empty Drive. The
  folder \<^verbatim>\<open>a\<close> is created under the root folder and gets the id \<^verbatim>\<open>id-a\<close>; the existence
  check and the create call for the file then use the root folder id, and the file ends
  in the root folder beside the new, empty folder.
\<close>

theorem mirrored_folder_id_is_discarded:
  "calls (snd (main (examplePlatform ((''mirrorDirectoryStructure'', ''true'') # exampleInputs)
                       [''a/f.txt''] []) exampleDrive []))
     = [FilesList (findQuery ''a'' ''root''),
        FilesCreate \<lparr>FileId = [], Name = ''a'',
                      MimeType = ''application/vnd.google-apps.folder'',
                      Parents = [''root'']\<rparr> None,
        FilesList (findQuery ''f.txt'' ''root''),
        FilesCreate \<lparr>FileId = [], Name = ''f.txt'', MimeType = [], Parents = [''root'']\<rparr>
          (Some ''contents of a/f.txt'')]
   \<and> remote (snd (main (examplePlatform ((''mirrorDirectoryStructure'', ''true'') # exampleInputs)
                       [''a/f.txt''] []) exampleDrive []))
     = [\<lparr>FileId = ''id-a'', Name = ''a'', MimeType = ''application/vnd.google-apps.folder'',
          Parents = [''root'']\<rparr>,
        \<lparr>FileId = ''id-f.txt'', Name = ''f.txt'', MimeType = [], Parents = [''root'']\<rparr>]
   \<and> fst (main (examplePlatform ((''mirrorDirectoryStructure'', ''true'') # exampleInputs)
                       [''a/f.txt''] []) exampleDrive []) = Returned"
  by code_simp

section \<open>Create or update\<close>

text \<open>
  Claim C5. For a regular file that opens, \<^verbatim>\<open>uploadToDrive\<close> issues an update with the id
  of the file it is given, or else a create with the name, the MIME type and the parent
  folder id. In the loop body the file given is the answer of the existence check, made in
  the world \<open>wm\<close> that the mirroring step leaves (the starting world when mirroring does
  not apply): when the list call answers a file, the update uses the id of the first one;
  when it answers none, the create is issued. The overwrite input has no part in it: two
  runs that differ in the overwrite input only have the same outcome, the same calls with
  the same arguments, and leave the same Drive.
\<close>

theorem create_or_update_follows_existence_check:
  "(Lstat os path = Inr False \<and> Open os path = Inr h \<longrightarrow>
      calls (snd (uploadToDrive os svc path folderId (Some df) name mimeType w)) =
        calls w @ [FilesUpdate (FileId df)
                     \<lparr>FileId = [], Name = name, MimeType = mimeType, Parents = []\<rparr> folderId h]
      \<and> calls (snd (uploadToDrive os svc path folderId None name mimeType w)) =
          calls w @ [FilesCreate
                       \<lparr>FileId = [], Name = name, MimeType = mimeType, Parents = [folderId]\<rparr>
                       (Some h)])
   \<and> (Lstat os path = Inr False \<and> Open os path = Inr h
        \<and> (if mds \<and> Dir (escapeSpaces path) \<noteq> ''.''
            then createDriveDirectory svc folderId (Dir (escapeSpaces path)) w = (Inr i, wm)
            else wm = w)
        \<and> Files_List_Do svc (remote wm)
              (findQuery (uploadedFileName ucs namePrefix name path) folderId) = (Inr fs, r') \<longrightarrow>
        calls (snd (main_loop_body os svc name folderId mimeType ucs mds namePrefix path w)) =
          calls wm @ [FilesList (findQuery (uploadedFileName ucs namePrefix name path) folderId),
                      (case fs of
                         [] \<Rightarrow>
                           FilesCreate
                             \<lparr>FileId = [], Name = uploadedFileName ucs namePrefix name path,
                                MimeType = mimeType, Parents = [folderId]\<rparr> (Some h)
                       | f # _ \<Rightarrow>
                           FilesUpdate (FileId f)
                             \<lparr>FileId = [], Name = uploadedFileName ucs namePrefix name path,
                                MimeType = mimeType, Parents = []\<rparr> folderId h)])
   \<and> fst (main (withInput os ''overwrite'' v) svc r)
       = fst (main (withInput os ''overwrite'' v') svc r)
   \<and> calls (snd (main (withInput os ''overwrite'' v) svc r))
       = calls (snd (main (withInput os ''overwrite'' v') svc r))
   \<and> remote (snd (main (withInput os ''overwrite'' v) svc r))
       = remote (snd (main (withInput os ''overwrite'' v') svc r))"
proof -
  let ?q = "findQuery (uploadedFileName ucs namePrefix name path) folderId"
  let ?up = "\<lambda>fs. (case fs of
                         [] \<Rightarrow>
                           FilesCreate
                             \<lparr>FileId = [], Name = uploadedFileName ucs namePrefix name path,
                                MimeType = mimeType, Parents = [folderId]\<rparr> (Some h)
                       | f # _ \<Rightarrow>
                           FilesUpdate (FileId f)
                             \<lparr>FileId = [], Name = uploadedFileName ucs namePrefix name path,
                                MimeType = mimeType, Parents = []\<rparr> folderId h)"
  have b: "Lstat os path = Inr False \<and> Open os path = Inr h
        \<and> (if mds \<and> Dir (escapeSpaces path) \<noteq> ''.''
            then createDriveDirectory svc folderId (Dir (escapeSpaces path)) w = (Inr i, wm)
            else wm = w)
        \<and> Files_List_Do svc (remote wm) ?q = (Inr fs, r') \<longrightarrow>
        calls (snd (main_loop_body os svc name folderId mimeType ucs mds namePrefix path w)) =
          calls wm @ [FilesList ?q, ?up fs]"
  proof
    assume a: "Lstat os path = Inr False \<and> Open os path = Inr h
        \<and> (if mds \<and> Dir (escapeSpaces path) \<noteq> ''.''
            then createDriveDirectory svc folderId (Dir (escapeSpaces path)) w = (Inr i, wm)
            else wm = w)
        \<and> Files_List_Do svc (remote wm) ?q = (Inr fs, r')"
    then have reg: "calls (snd (checkAndUpload os svc name folderId mimeType ucs namePrefix path wm))
        = calls wm @ [FilesList ?q, ?up fs]"
      using checkAndUpload_regular [of os path h svc wm ucs namePrefix name folderId fs r' mimeType]
      by simp
    show "calls (snd (main_loop_body os svc name folderId mimeType ucs mds namePrefix path w)) =
          calls wm @ [FilesList ?q, ?up fs]"
    proof (cases "mds \<and> Dir (escapeSpaces path) \<noteq> ''.''")
      case True
      with a have "createDriveDirectory svc folderId (Dir (escapeSpaces path)) w = (Inr i, wm)"
        by simp
      with reg show ?thesis
        by (simp add: body_mirrored [OF True])
    next
      case False
      with a have "wm = w" by simp
      with reg show ?thesis
        by (simp only: body_not_mirrored [OF False])
    qed
  qed
  show ?thesis
    using b main_overwrite_irrelevant [of os v svc r] main_overwrite_irrelevant [of os v' svc r]
    by (simp add: uploadToDrive_update uploadToDrive_create)
qed

theorem create_or_update_follows_existence_check_witness:
  "Lstat (examplePlatform exampleInputs [''f.txt''] []) ''f.txt'' = Inr False
   \<and> Open (examplePlatform exampleInputs [''f.txt''] []) ''f.txt'' = Inr ''contents of f.txt''
   \<and> Files_List_Do exampleDrive (remote (startWorld [existingFile]))
        (findQuery (uploadedFileName False [] [] ''f.txt'') ''root'')
       = (Inr [existingFile], [existingFile])
   \<and> calls (snd (main_loop_body (examplePlatform exampleInputs [''f.txt''] []) exampleDrive
                    [] ''root'' [] False False [] ''f.txt'' (startWorld [existingFile])))
       = [FilesList (findQuery ''f.txt'' ''root''),
          FilesUpdate ''X1'' \<lparr>FileId = [], Name = ''f.txt'', MimeType = [], Parents = []\<rparr>
            ''root'' ''contents of f.txt'']
   \<and> Files_List_Do exampleDrive (remote (startWorld []))
        (findQuery (uploadedFileName False [] [] ''f.txt'') ''root'') = (Inr [], [])
   \<and> calls (snd (main_loop_body (examplePlatform exampleInputs [''f.txt''] []) exampleDrive
                    [] ''root'' [] False False [] ''f.txt'' (startWorld [])))
       = [FilesList (findQuery ''f.txt'' ''root''),
          FilesCreate \<lparr>FileId = [], Name = ''f.txt'', MimeType = [], Parents = [''root'']\<rparr>
            (Some ''contents of f.txt'')]
   \<and> createDriveDirectory exampleDrive ''root'' (Dir (escapeSpaces ''a/f.txt'')) (startWorld [])
       = (Inr ''id-a'', afterMirror)
   \<and> calls (snd (main_loop_body (examplePlatform exampleInputs [''a/f.txt''] []) exampleDrive
                    [] ''root'' [] False True [] ''a/f.txt'' (startWorld [])))
       = calls afterMirror
         @ [FilesList (findQuery ''f.txt'' ''root''),
            FilesCreate \<lparr>FileId = [], Name = ''f.txt'', MimeType = [], Parents = [''root'']\<rparr>
              (Some ''contents of a/f.txt'')]
   \<and> calls (snd (main (withInput (examplePlatform exampleInputs [''f.txt''] []) ''overwrite''
                          ''true'') exampleDrive [existingFile]))
       = calls (snd (main (withInput (examplePlatform exampleInputs [''f.txt''] []) ''overwrite''
                            ''false'') exampleDrive [existingFile]))"
proof -
  have h1: "Lstat (examplePlatform exampleInputs [''f.txt''] []) ''f.txt'' = Inr False"
    and h2: "Open (examplePlatform exampleInputs [''f.txt''] []) ''f.txt''
               = Inr ''contents of f.txt''"
    and h1': "Lstat (examplePlatform exampleInputs [''a/f.txt''] []) ''a/f.txt'' = Inr False"
    and h2': "Open (examplePlatform exampleInputs [''a/f.txt''] []) ''a/f.txt''
               = Inr ''contents of a/f.txt''"
    by (simp_all add: examplePlatform_def)
  have h3: "Files_List_Do exampleDrive (remote (startWorld [existingFile]))
        (findQuery (uploadedFileName False [] [] ''f.txt'') ''root'')
       = (Inr [existingFile], [existingFile])"
    by code_simp
  have h4: "Files_List_Do exampleDrive (remote (startWorld []))
        (findQuery (uploadedFileName False [] [] ''f.txt'') ''root'') = (Inr [], [])"
    by code_simp
  have h5: "createDriveDirectory exampleDrive ''root'' (Dir (escapeSpaces ''a/f.txt''))
              (startWorld []) = (Inr ''id-a'', afterMirror)"
    by code_simp
  have h6: "Files_List_Do exampleDrive (remote afterMirror)
        (findQuery (uploadedFileName False [] [] ''a/f.txt'') ''root'')
       = (Inr [], remote afterMirror)"
    by code_simp
  have m: "True \<and> Dir (escapeSpaces ''a/f.txt'') \<noteq> ''.''"
    by (simp add: Dir_examples)
  note t1 = create_or_update_follows_existence_check
          [where os = "examplePlatform exampleInputs [''f.txt''] []" and path = "''f.txt''"
             and h = "''contents of f.txt''" and svc = exampleDrive and mds = False
             and w = "startWorld [existingFile]" and wm = "startWorld [existingFile]"
             and ucs = False and namePrefix = "[]"
             and name = "[]" and folderId = "''root''" and fs = "[existingFile]"
             and r' = "[existingFile]" and mimeType = "[]" and v = "''true''"
             and v' = "''false''" and r = "[existingFile]"]
  note t2 = create_or_update_follows_existence_check
          [where os = "examplePlatform exampleInputs [''f.txt''] []" and path = "''f.txt''"
             and h = "''contents of f.txt''" and svc = exampleDrive and mds = False
             and w = "startWorld []" and wm = "startWorld []" and ucs = False
             and namePrefix = "[]" and name = "[]" and folderId = "''root''" and fs = "[]"
             and r' = "[]" and mimeType = "[]"]
  note t3 = create_or_update_follows_existence_check
          [where os = "examplePlatform exampleInputs [''a/f.txt''] []" and path = "''a/f.txt''"
             and h = "''contents of a/f.txt''" and svc = exampleDrive and mds = True
             and w = "startWorld []" and wm = afterMirror and i = "''id-a''" and ucs = False
             and namePrefix = "[]" and name = "[]" and folderId = "''root''" and fs = "[]"
             and r' = "remote afterMirror" and mimeType = "[]"]
  from t1 h1 h2 h3 have c1:
    "calls (snd (main_loop_body (examplePlatform exampleInputs [''f.txt''] []) exampleDrive
                    [] ''root'' [] False False [] ''f.txt'' (startWorld [existingFile])))
       = calls (startWorld [existingFile])
         @ [FilesList (findQuery (uploadedFileName False [] [] ''f.txt'') ''root''),
            FilesUpdate (FileId existingFile)
              \<lparr>FileId = [], Name = uploadedFileName False [] [] ''f.txt'',
                 MimeType = [], Parents = []\<rparr> ''root'' ''contents of f.txt'']"
    by simp
  from t2 h1 h2 h4 have c2:
    "calls (snd (main_loop_body (examplePlatform exampleInputs [''f.txt''] []) exampleDrive
                    [] ''root'' [] False False [] ''f.txt'' (startWorld [])))
       = calls (startWorld [])
         @ [FilesList (findQuery (uploadedFileName False [] [] ''f.txt'') ''root''),
            FilesCreate \<lparr>FileId = [], Name = uploadedFileName False [] [] ''f.txt'',
                          MimeType = [], Parents = [''root'']\<rparr> (Some ''contents of f.txt'')]"
    by simp
  from t3 h1' h2' h5 h6 m have c3:
    "calls (snd (main_loop_body (examplePlatform exampleInputs [''a/f.txt''] []) exampleDrive
                    [] ''root'' [] False True [] ''a/f.txt'' (startWorld [])))
       = calls afterMirror
         @ [FilesList (findQuery (uploadedFileName False [] [] ''a/f.txt'') ''root''),
            FilesCreate \<lparr>FileId = [], Name = uploadedFileName False [] [] ''a/f.txt'',
                          MimeType = [], Parents = [''root'']\<rparr> (Some ''contents of a/f.txt'')]"
    by simp
  from t1 have c4: "calls (snd (main (withInput (examplePlatform exampleInputs [''f.txt''] [])
                          ''overwrite'' ''true'') exampleDrive [existingFile]))
       = calls (snd (main (withInput (examplePlatform exampleInputs [''f.txt''] []) ''overwrite''
                            ''false'') exampleDrive [existingFile]))"
    by simp
  have s: "calls (startWorld []) = []" "calls (startWorld [existingFile]) = []"
    "FileId existingFile = ''X1''" "uploadedFileName False [] [] ''f.txt'' = ''f.txt''"
    "uploadedFileName False [] [] ''a/f.txt'' = ''f.txt''"
    by (simp_all add: startWorld_def existingFile_def uploadedFileName_def Base_def
          stripTrailing_def IsPathSeparator_def)
  show ?thesis
    using h1 h2 h3 h4 h5 c1 c2 c3 c4 by (simp add: s)
qed

section \<open>Directories among the matched paths\<close>

text \<open>
  Claim C6, as the program has it. For a matched path that is a directory,
  \<^verbatim>\<open>uploadToDrive\<close> writes the notice, makes no call and returns an empty link and no error.
  The loop body issues no create with media and no update for that path, and it does not
  end in \<^verbatim>\<open>Fatalf\<close> because of the directory: the only fatal ends left are a failed folder
  mirroring and a failed existence check. Those calls are still made: the existence check
  (and, when mirroring applies, the folder lookup and creation) comes before the directory
  test; without mirroring the existence check is the one call made for the path. When the
  body is not fatal the loop goes on with the remaining files.
\<close>

theorem directory_is_skipped_after_the_existence_check:
  "Lstat os path = Inr True \<longrightarrow>
     uploadToDrive os svc path folderId driveFile fileName mimeType w =
       (Inr [], w\<lparr>out := out w @ [Printf (path @ '' is a directory. skipping upload.'')]\<rparr>)
     \<and> filter isUpload
         (calls (snd (main_loop_body os svc name folderId mimeType ucs mds namePrefix path w)))
       = filter isUpload (calls w)
     \<and> calls (snd (main_loop_body os svc name folderId mimeType ucs False namePrefix path w))
       = calls w @ [FilesList (findQuery (uploadedFileName ucs namePrefix name path) folderId)]
     \<and> (fst (main_loop_body os svc name folderId mimeType ucs mds namePrefix path w) = None
         \<or> (\<exists>e. fst (main_loop_body os svc name folderId mimeType ucs mds namePrefix path w)
                 = Some (''Failed to create directory structure on Google Drive: '' @ e))
         \<or> (\<exists>e. fst (main_loop_body os svc name folderId mimeType ucs mds namePrefix path w)
                 = Some (''Failed to check existing files in the folder: '' @ e)))
     \<and> (fst (main_loop_body os svc name folderId mimeType ucs mds namePrefix path w) = None \<longrightarrow>
          main_loop os svc name folderId mimeType ucs mds namePrefix (path # files) w
            = main_loop os svc name folderId mimeType ucs mds namePrefix files
                (snd (main_loop_body os svc name folderId mimeType ucs mds namePrefix path w)))"
proof
  assume d: "Lstat os path = Inr True"
  let ?n = "uploadedFileName ucs namePrefix name path"
  let ?body = "main_loop_body os svc name folderId mimeType ucs mds namePrefix path w"
  have cu: "\<And>w1. calls (snd (checkAndUpload os svc name folderId mimeType ucs namePrefix path w1))
        = calls w1 @ [FilesList (findQuery ?n folderId)]
      \<and> (fst (checkAndUpload os svc name folderId mimeType ucs namePrefix path w1) = None
         \<or> (\<exists>e. fst (checkAndUpload os svc name folderId mimeType ucs namePrefix path w1)
                 = Some (''Failed to check existing files in the folder: '' @ e)))"
  proof -
    fix w1 :: "'a world"
    obtain a w2 where f: "findFileByName svc ?n folderId w1 = (a, w2)"
      by (cases "findFileByName svc ?n folderId w1")
    then have "calls w2 = calls w1 @ [FilesList (findQuery ?n folderId)]"
      using findFileByName_calls [of svc ?n folderId w1] by simp
    with f show "calls (snd (checkAndUpload os svc name folderId mimeType ucs namePrefix path w1))
        = calls w1 @ [FilesList (findQuery ?n folderId)]
      \<and> (fst (checkAndUpload os svc name folderId mimeType ucs namePrefix path w1) = None
         \<or> (\<exists>e. fst (checkAndUpload os svc name folderId mimeType ucs namePrefix path w1)
                 = Some (''Failed to check existing files in the folder: '' @ e)))"
      by (cases a) (simp_all add: checkAndUpload_dir [OF d])
  qed
  have p1: "uploadToDrive os svc path folderId driveFile fileName mimeType w =
       (Inr [], w\<lparr>out := out w @ [Printf (path @ '' is a directory. skipping upload.'')]\<rparr>)"
    by (rule uploadToDrive_dir [OF d])
  have nm: "\<not> (False \<and> Dir (escapeSpaces path) \<noteq> ''.'')" by simp
  have p3: "calls (snd (main_loop_body os svc name folderId mimeType ucs False namePrefix path w))
       = calls w @ [FilesList (findQuery ?n folderId)]"
    using cu [of w] by (simp only: body_not_mirrored [OF nm])
  have p24: "filter isUpload (calls (snd ?body)) = filter isUpload (calls w)
     \<and> (fst ?body = None
         \<or> (\<exists>e. fst ?body = Some (''Failed to create directory structure on Google Drive: '' @ e))
         \<or> (\<exists>e. fst ?body = Some (''Failed to check existing files in the folder: '' @ e)))"
  proof (cases "mds \<and> Dir (escapeSpaces path) \<noteq> ''.''")
    case False
    show ?thesis
      using cu [of w] by (simp only: body_not_mirrored [OF False]) auto
  next
    case True
    let ?d = "Dir (escapeSpaces path)"
    obtain a w1 where c: "createDriveDirectory svc folderId ?d w = (a, w1)"
      by (cases "createDriveDirectory svc folderId ?d w")
    then have c1: "calls w1 = calls w @ FilesList (findQuery ?d folderId) # folderCreates svc folderId ?d w"
      using createDriveDirectory_calls [of svc folderId ?d w] by simp
    show ?thesis
    proof (cases a)
      case (Inl err)
      with c c1 show ?thesis
        by (simp add: body_mirrored [OF True] folderCreates_isFolderCreate)
    next
      case (Inr i)
      with c c1 cu [of w1] show ?thesis
        by (simp only: body_mirrored [OF True]) (auto simp add: folderCreates_isFolderCreate)
    qed
  qed
  have p5: "fst ?body = None \<longrightarrow>
          main_loop os svc name folderId mimeType ucs mds namePrefix (path # files) w
            = main_loop os svc name folderId mimeType ucs mds namePrefix files (snd ?body)"
    by (cases ?body) auto
  from p1 p24 p3 p5
  show "uploadToDrive os svc path folderId driveFile fileName mimeType w =
       (Inr [], w\<lparr>out := out w @ [Printf (path @ '' is a directory. skipping upload.'')]\<rparr>)
     \<and> filter isUpload (calls (snd ?body)) = filter isUpload (calls w)
     \<and> calls (snd (main_loop_body os svc name folderId mimeType ucs False namePrefix path w))
       = calls w @ [FilesList (findQuery ?n folderId)]
     \<and> (fst ?body = None
         \<or> (\<exists>e. fst ?body = Some (''Failed to create directory structure on Google Drive: '' @ e))
         \<or> (\<exists>e. fst ?body = Some (''Failed to check existing files in the folder: '' @ e)))
     \<and> (fst ?body = None \<longrightarrow>
          main_loop os svc name folderId mimeType ucs mds namePrefix (path # files) w
            = main_loop os svc name folderId mimeType ucs mds namePrefix files (snd ?body))"
    by blast
qed

theorem directory_is_skipped_after_the_existence_check_witness:
  "Lstat (examplePlatform exampleInputs [''d'', ''e.txt''] [''d'']) ''d'' = Inr True
   \<and> calls (snd (main_loop_body (examplePlatform exampleInputs [''d'', ''e.txt''] [''d''])
                    exampleDrive [] ''root'' [] False False [] ''d'' (startWorld [])))
       = [FilesList (findQuery ''d'' ''root'')]
   \<and> filter isUpload
        (calls (snd (main_loop_body (examplePlatform exampleInputs [''d'', ''e.txt''] [''d''])
                       exampleDrive [] ''root'' [] False False [] ''d'' (startWorld [])))) = []
   \<and> fst (main_loop_body (examplePlatform exampleInputs [''d'', ''e.txt''] [''d''])
             exampleDrive [] ''root'' [] False False [] ''d'' (startWorld [])) = None
   \<and> main_loop (examplePlatform exampleInputs [''d'', ''e.txt''] [''d''])
         exampleDrive [] ''root'' [] False False [] [''d'', ''e.txt''] (startWorld [])
       = main_loop (examplePlatform exampleInputs [''d'', ''e.txt''] [''d''])
           exampleDrive [] ''root'' [] False False [] [''e.txt'']
           (snd (main_loop_body (examplePlatform exampleInputs [''d'', ''e.txt''] [''d''])
                   exampleDrive [] ''root'' [] False False [] ''d'' (startWorld [])))"
proof -
  have h: "Lstat (examplePlatform exampleInputs [''d'', ''e.txt''] [''d'']) ''d'' = Inr True"
    by (simp add: examplePlatform_def)
  have n: "fst (main_loop_body (examplePlatform exampleInputs [''d'', ''e.txt''] [''d''])
             exampleDrive [] ''root'' [] False False [] ''d'' (startWorld [])) = None"
    by code_simp
  note t = directory_is_skipped_after_the_existence_check
          [where os = "examplePlatform exampleInputs [''d'', ''e.txt''] [''d'']"
             and path = "''d''" and svc = exampleDrive and name = "[]" and folderId = "''root''"
             and mimeType = "[]" and ucs = False and mds = False and namePrefix = "[]"
             and w = "startWorld []" and files = "[''e.txt'']"]
  from t h have c1:
    "filter isUpload
        (calls (snd (main_loop_body (examplePlatform exampleInputs [''d'', ''e.txt''] [''d''])
                       exampleDrive [] ''root'' [] False False [] ''d'' (startWorld []))))
       = filter isUpload (calls (startWorld []))"
    and c2: "calls (snd (main_loop_body (examplePlatform exampleInputs [''d'', ''e.txt''] [''d''])
                    exampleDrive [] ''root'' [] False False [] ''d'' (startWorld [])))
       = calls (startWorld []) @ [FilesList (findQuery (uploadedFileName False [] [] ''d'') ''root'')]"
    by simp_all
  from t h n have c3: "main_loop (examplePlatform exampleInputs [''d'', ''e.txt''] [''d''])
         exampleDrive [] ''root'' [] False False [] (''d'' # [''e.txt'']) (startWorld [])
       = main_loop (examplePlatform exampleInputs [''d'', ''e.txt''] [''d''])
           exampleDrive [] ''root'' [] False False [] [''e.txt'']
           (snd (main_loop_body (examplePlatform exampleInputs [''d'', ''e.txt''] [''d''])
                   exampleDrive [] ''root'' [] False False [] ''d'' (startWorld [])))"
    by simp
  have s: "calls (startWorld []) = []"
    "uploadedFileName False [] [] ''d'' = ''d''"
    by (simp_all add: startWorld_def uploadedFileName_def Base_def
          stripTrailing_def IsPathSeparator_def)
  show ?thesis
    using h n c1 c2 c3 by (simp add: s)
qed

text \<open>
  Claim C6 as stated fails: a run whose only matched path is the directory \<^verbatim>\<open>d\<close> makes
  one call to the Drive service, the existence check for \<^verbatim>\<open>d\<close>.
\<close>

theorem directory_counterexample:
  "Lstat (examplePlatform exampleInputs [''d''] [''d'']) ''d'' = Inr True
   \<and> calls (snd (main (examplePlatform exampleInputs [''d''] [''d'']) exampleDrive []))
       = [FilesList (findQuery ''d'' ''root'')]
   \<and> calls (snd (main (examplePlatform exampleInputs [''d''] [''d'']) exampleDrive [])) \<noteq> []"
  by code_simp

end
